theory Spec2Isabelle
  imports Complex_Main "HOL-Library.Word"
begin

unbundle bit_operations_syntax

section \<open>JavaScript values and arrays\<close>

text \<open>
  The colour vectors of the renderer are JavaScript arrays. Their cells hold numbers,
  but \<open>hex2rgba\<close> builds them from pieces of strings, so a cell can also be \<open>NaN\<close>,
  a string that was never converted, or a hole. Numbers are real numbers here: rounding,
  infinities and the sign of zero are not represented.
\<close>

datatype jsval = Num real | NaN | Str string | Undef

text \<open>ToBoolean, as used by \<open>if (stroke[3])\<close>.\<close>

fun truthy :: "jsval \<Rightarrow> bool" where
  "truthy (Num r) = (r \<noteq> 0)"
| "truthy NaN = False"
| "truthy (Str s) = (s \<noteq> [])"
| "truthy Undef = False"

type_synonym jsarray = "jsval list"

text \<open>\<open>xs[i]\<close>: reading past the end gives \<open>undefined\<close>.\<close>

definition get_index :: "jsarray \<Rightarrow> nat \<Rightarrow> jsval" where
  "get_index xs i = (if i < length xs then xs ! i else Undef)"

text \<open>\<open>xs[i] = v\<close>: writing past the end extends the array, the cells skipped are holes.\<close>

definition set_index :: "jsarray \<Rightarrow> nat \<Rightarrow> jsval \<Rightarrow> jsarray" where
  "set_index xs i v =
     (if i < length xs then xs[i := v] else xs @ replicate (i - length xs) Undef @ [v])"

section \<open>Matrices\<close>

text \<open>
  A \<open>mat4\<close> is an array of 16 numbers in column-major order. The matrix functions belong
  to the glMatrix library the engine is linked with; the two the drawing primitives use
  are written here as that library computes them, on the matrix passed first.
\<close>

type_synonym mat4 = "real list"

definition mat4_translate :: "mat4 \<Rightarrow> real \<Rightarrow> real \<Rightarrow> real \<Rightarrow> mat4" where
  "mat4_translate m x y z =
     (take 12 m) @
     [m ! 0 * x + m ! 4 * y + m ! 8 * z + m ! 12,
      m ! 1 * x + m ! 5 * y + m ! 9 * z + m ! 13,
      m ! 2 * x + m ! 6 * y + m ! 10 * z + m ! 14,
      m ! 3 * x + m ! 7 * y + m ! 11 * z + m ! 15] @ drop 16 m"

definition mat4_scale :: "mat4 \<Rightarrow> real \<Rightarrow> real \<Rightarrow> real \<Rightarrow> mat4" where
  "mat4_scale m x y z =
     map (\<lambda>c. c * x) (take 4 m) @ map (\<lambda>c. c * y) (take 4 (drop 4 m)) @
     map (\<lambda>c. c * z) (take 4 (drop 8 m)) @ drop 12 m"

section \<open>The renderer\<close>

subsection \<open>Backend calls\<close>

text \<open>
  Vertex and index buffers, shader programs and the WebGL context are collaborators of
  the renderer. A buffer is known by its reference and its item count; every call the
  renderer makes on a program or on the context is appended to a log.
\<close>

record buffer =
  buf_ref :: nat
  numItems :: nat

record texture =
  tex_ref :: nat
  tex_width :: real
  tex_height :: real

datatype draw_mode = TRIANGLES | TRIANGLE_STRIP | TRIANGLE_FAN | LINES | LINE_STRIP | LINE_LOOP
  | POINTS

datatype shader = ColorShader | TextureShader

type_synonym addr = nat

datatype gl_call =
    ProgramUse shader
  | BindVertexBuffer shader string buffer
  | BindUniformMatrix shader string mat4
  | BindUniformVec4 shader string addr
  | BindTexture shader string texture
  | CreateVertexBuffer buffer
  | BindElementBuffer nat
  | DrawArrays draw_mode nat nat
  | DrawElements draw_mode nat
  | LineWidth real

fun is_draw :: "gl_call \<Rightarrow> bool" where
  "is_draw (DrawArrays m first n) = True"
| "is_draw (DrawElements m n) = True"
| "is_draw c = False"

definition draw_calls :: "gl_call list \<Rightarrow> gl_call list" where
  "draw_calls cs = filter is_draw cs"

subsection \<open>State\<close>

text \<open>
  The colour arrays are shared between the colour cache of \<open>Tilt.Math\<close> and the slots
  of the renderer, and are written in place, so they live in a store: \<open>heap\<close> maps an
  address to the array there and \<open>next_addr\<close> is the next address an array literal gets.
  \<open>cache\<close> is the table of the properties \<open>hex2rgba\<close> has added to \<open>Tilt.Math\<close>.
  The matrix stack holds copies (\<open>mat4.create(this.mvMatrix)\<close>), so matrices are values.
  The top of the stack is the last element, as with \<open>push\<close> and \<open>pop\<close> of an array.
\<close>

record renderer =
  heap :: "addr \<Rightarrow> jsarray"
  next_addr :: addr
  cache :: "string \<rightharpoonup> addr"
  mvMatrixStack :: "mat4 list"
  mvMatrix :: mat4
  projMatrix :: mat4
  tintColor :: addr
  fillColor :: addr
  strokeColor :: addr
  strokeWeightValue :: real
  rectModeValue :: string
  imageModeValue :: string
  rectangle_vertices :: buffer
  rectangle_texCoord :: buffer
  rectangleWireframe_vertices :: buffer
  cube_vertices :: buffer
  cube_texCoord :: buffer
  cube_indices :: buffer
  cubeWireframe_vertices :: buffer
  cubeWireframe_indices :: buffer
  next_buffer :: nat
  gl :: "gl_call list"

subsection \<open>Matrix stack and transforms\<close>

definition pushMatrix :: "renderer \<Rightarrow> renderer" where
  "pushMatrix r = r\<lparr>mvMatrixStack := mvMatrixStack r @ [mvMatrix r]\<rparr>"

definition popMatrix :: "renderer \<Rightarrow> renderer" where
  "popMatrix r =
     (if length (mvMatrixStack r) > 0
      then r\<lparr>mvMatrix := last (mvMatrixStack r), mvMatrixStack := butlast (mvMatrixStack r)\<rparr>
      else r)"

text \<open>\<open>z || 0\<close> on a number: zero stays zero.\<close>

definition or_zero :: "real \<Rightarrow> real" where
  "or_zero z = (if z \<noteq> 0 then z else 0)"

definition translate :: "renderer \<Rightarrow> real \<Rightarrow> real \<Rightarrow> real \<Rightarrow> renderer" where
  "translate r x y z = r\<lparr>mvMatrix := mat4_translate (mvMatrix r) x y (or_zero z)\<rparr>"

definition scale :: "renderer \<Rightarrow> real \<Rightarrow> real \<Rightarrow> real \<Rightarrow> renderer" where
  "scale r x y z = r\<lparr>mvMatrix := mat4_scale (mvMatrix r) x y (or_zero z)\<rparr>"

subsection \<open>Shaders and draw dispatch\<close>

definition emit :: "renderer \<Rightarrow> gl_call list \<Rightarrow> renderer" where
  "emit r cs = r\<lparr>gl := gl r @ cs\<rparr>"

definition useColorShader :: "renderer \<Rightarrow> buffer \<Rightarrow> addr \<Rightarrow> renderer" where
  "useColorShader r verticesBuffer color =
     emit r
       [ProgramUse ColorShader,
        BindVertexBuffer ColorShader ''vertexPosition'' verticesBuffer,
        BindUniformMatrix ColorShader ''mvMatrix'' (mvMatrix r),
        BindUniformMatrix ColorShader ''projMatrix'' (projMatrix r),
        BindUniformVec4 ColorShader ''color'' color]"

definition useTextureShader ::
  "renderer \<Rightarrow> buffer \<Rightarrow> buffer \<Rightarrow> addr \<Rightarrow> texture \<Rightarrow> renderer" where
  "useTextureShader r verticesBuffer texCoordBuffer color tex =
     emit r
       [ProgramUse TextureShader,
        BindVertexBuffer TextureShader ''vertexPosition'' verticesBuffer,
        BindVertexBuffer TextureShader ''vertexTexCoord'' texCoordBuffer,
        BindUniformMatrix TextureShader ''mvMatrix'' (mvMatrix r),
        BindUniformMatrix TextureShader ''projMatrix'' (projMatrix r),
        BindUniformVec4 TextureShader ''color'' color,
        BindTexture TextureShader ''sampler'' tex]"

definition drawVertices :: "renderer \<Rightarrow> draw_mode \<Rightarrow> nat \<Rightarrow> renderer" where
  "drawVertices r drawMode count = emit r [DrawArrays drawMode 0 count]"

definition drawIndexedVertices :: "renderer \<Rightarrow> draw_mode \<Rightarrow> buffer \<Rightarrow> renderer" where
  "drawIndexedVertices r drawMode indicesBuffer =
     emit r [BindElementBuffer (buf_ref indicesBuffer),
             DrawElements drawMode (numItems indicesBuffer)]"

subsection \<open>Primitives\<close>

text \<open>The alpha cell of a colour slot, as \<open>stroke[3]\<close> reads it.\<close>

definition alpha :: "renderer \<Rightarrow> addr \<Rightarrow> jsval" where
  "alpha r c = get_index (heap r c) 3"

text \<open>
  Modelled from the spec: \<open>Tilt.VertexBuffer\<close> is not among the sources. The spec has
  "create vertex buffer from flat float array + component stride \<rightarrow> handle with item
  count": the new buffer gets a fresh reference and counts its items by the stride.
\<close>

definition newVertexBuffer :: "renderer \<Rightarrow> real list \<Rightarrow> nat \<Rightarrow> buffer \<times> renderer" where
  "newVertexBuffer r elements itemSize =
     (let b = \<lparr>buf_ref = next_buffer r, numItems = length elements div itemSize\<rparr>
      in (b, emit (r\<lparr>next_buffer := next_buffer r + 1\<rparr>) [CreateVertexBuffer b]))"

definition triangle :: "renderer \<Rightarrow> real list \<Rightarrow> real list \<Rightarrow> real list \<Rightarrow> renderer" where
  "triangle r v0 v1 v2 =
     (let (vertices, r0) = newVertexBuffer r (v0 @ v1 @ v2) 3;
          fill = fillColor r0;
          stroke = strokeColor r0;
          r1 = (if truthy (alpha r0 stroke)
                then drawVertices (useColorShader r0 vertices stroke) LINE_LOOP (numItems vertices)
                else r0);
          r2 = (if truthy (alpha r1 fill)
                then drawVertices (useColorShader r1 vertices fill) TRIANGLE_STRIP
                       (numItems vertices)
                else r1)
      in r2)"

definition rect :: "renderer \<Rightarrow> real \<Rightarrow> real \<Rightarrow> real \<Rightarrow> real \<Rightarrow> renderer" where
  "rect r x y width height =
     (let fill = fillColor r;
          stroke = strokeColor r;
          x' = (if rectModeValue r = ''center'' then x - width / 2 else x);
          y' = (if rectModeValue r = ''center'' then y - height / 2 else y);
          r1 = pushMatrix r;
          r2 = translate r1 x' y' 0;
          r3 = scale r2 width height 1;
          r4 = (if truthy (alpha r3 stroke)
                then drawVertices (useColorShader r3 (rectangleWireframe_vertices r3) stroke)
                       LINE_STRIP (numItems (rectangleWireframe_vertices r3))
                else r3);
          r5 = (if truthy (alpha r4 fill)
                then drawVertices (useColorShader r4 (rectangle_vertices r4) fill)
                       TRIANGLE_STRIP (numItems (rectangle_vertices r4))
                else r4)
      in popMatrix r5)"

text \<open>
  \<open>width\<close> and \<open>height\<close> may be left out (\<open>None\<close>), and so may the texture
  coordinates; \<open>image\<close> is a constant of HOL, hence the name.
\<close>

definition image_draw ::
  "renderer \<Rightarrow> texture \<Rightarrow> real \<Rightarrow> real \<Rightarrow> real option \<Rightarrow> real option \<Rightarrow> buffer option
     \<Rightarrow> renderer" where
  "image_draw r t x y width height texCoord =
     (let tint = tintColor r;
          stroke = strokeColor r;
          texCoordBuffer = (case texCoord of Some b \<Rightarrow> b | None \<Rightarrow> rectangle_texCoord r);
          (w, h) = (case (width, height) of
                      (Some w, Some h) \<Rightarrow> (w, h)
                    | _ \<Rightarrow> (tex_width t, tex_height t));
          x' = (if imageModeValue r = ''center'' then x - w / 2 else x);
          y' = (if imageModeValue r = ''center'' then y - h / 2 else y)
      in if truthy (alpha r tint)
         then (let r1 = pushMatrix r;
                   r2 = translate r1 x' y' 0;
                   r3 = scale r2 w h 1;
                   r4 = useTextureShader r3 (rectangle_vertices r3) texCoordBuffer tint t;
                   r5 = drawVertices r4 TRIANGLE_STRIP (numItems (rectangle_vertices r4))
               in popMatrix r5)
         else r)"

definition box :: "renderer \<Rightarrow> real \<Rightarrow> real \<Rightarrow> real \<Rightarrow> texture option \<Rightarrow> renderer" where
  "box r width height depth tex =
     (let tint = tintColor r;
          fill = fillColor r;
          stroke = strokeColor r;
          r1 = pushMatrix r;
          r2 = scale r1 width height depth;
          r3 = (if truthy (alpha r2 stroke)
                then drawIndexedVertices (useColorShader r2 (cubeWireframe_vertices r2) stroke)
                       LINES (cubeWireframe_indices r2)
                else r2);
          r4 = (case tex of
                  Some t \<Rightarrow>
                    (if truthy (alpha r3 tint)
                     then drawIndexedVertices
                            (useTextureShader r3 (cube_vertices r3) (cube_texCoord r3) tint t)
                            TRIANGLES (cube_indices r3)
                     else r3)
                | None \<Rightarrow>
                    (if truthy (alpha r3 fill)
                     then drawIndexedVertices (useColorShader r3 (cube_vertices r3) fill)
                            TRIANGLES (cube_indices r3)
                     else r3))
      in popMatrix r4)"

section \<open>Colours\<close>

subsection \<open>String operations\<close>

definition charAt :: "string \<Rightarrow> nat \<Rightarrow> string" where
  "charAt s i = (if i < length s then [s ! i] else [])"

text \<open>\<open>s.substring(a, b)\<close>: both ends are clamped to the length and swapped if out of order.\<close>

definition substring :: "string \<Rightarrow> nat \<Rightarrow> nat \<Rightarrow> string" where
  "substring s a b =
     (let a' = min a (length s); b' = min b (length s)
      in take (max a' b' - min a' b') (drop (min a' b') s))"

text \<open>\<open>s.split(',')\<close>\<close>

fun split_comma :: "string \<Rightarrow> string list" where
  "split_comma [] = [[]]"
| "split_comma (c # cs) =
     (if c = CHR '','' then [] # split_comma cs
      else (case split_comma cs of x # xs \<Rightarrow> (c # x) # xs | [] \<Rightarrow> [[c]]))"

text \<open>
  \<open>parseInt(s, 16)\<close>: leading white space, a sign, an optional \<open>0x\<close>, then the longest
  run of hexadecimal digits; \<open>NaN\<close> when that run is empty. Characters are ASCII here.
\<close>

definition is_space :: "char \<Rightarrow> bool" where
  "is_space c = (let n = (of_char c :: nat) in (9 \<le> n \<and> n \<le> 13) \<or> n = 32)"

definition hex_digit :: "char \<Rightarrow> nat option" where
  "hex_digit c =
     (let n = (of_char c :: nat)
      in if 48 \<le> n \<and> n \<le> 57 then Some (n - 48)
         else if 97 \<le> n \<and> n \<le> 102 then Some (n - 87)
         else if 65 \<le> n \<and> n \<le> 70 then Some (n - 55)
         else None)"

definition hex_value :: "string \<Rightarrow> nat" where
  "hex_value ds = foldl (\<lambda>acc c. 16 * acc + the (hex_digit c)) 0 ds"

definition parseInt16 :: "string \<Rightarrow> jsval" where
  "parseInt16 s =
     (let s1 = dropWhile is_space s;
          sign = (if take 1 s1 = ''-'' then - 1 else (1 :: real));
          s2 = (if take 1 s1 = ''-'' \<or> take 1 s1 = ''+'' then drop 1 s1 else s1);
          s3 = (if take 2 s2 = ''0x'' \<or> take 2 s2 = ''0X'' then drop 2 s2 else s2);
          z = takeWhile (\<lambda>c. hex_digit c \<noteq> None) s3
      in if z = [] then NaN else Num (sign * real (hex_value z)))"

text \<open>
  \<open>v / 255\<close>. A string operand is converted to a number first; that conversion is the
  language's own and is a parameter \<open>toNumber\<close> of everything that parses a colour.
  \<open>undefined\<close> converts to \<open>NaN\<close>.
\<close>

fun div255 :: "(string \<Rightarrow> jsval) \<Rightarrow> jsval \<Rightarrow> jsval" where
  "div255 toNumber (Num r) = Num (r / 255)"
| "div255 toNumber NaN = NaN"
| "div255 toNumber (Str s) = (case toNumber s of Num r \<Rightarrow> Num (r / 255) | _ \<Rightarrow> NaN)"
| "div255 toNumber Undef = NaN"

subsection \<open>The colour cache\<close>

text \<open>An array literal: a new array at the next free address.\<close>

definition alloc :: "renderer \<Rightarrow> jsarray \<Rightarrow> addr \<times> renderer" where
  "alloc r xs = (next_addr r, r\<lparr>heap := (heap r)(next_addr r := xs), next_addr := next_addr r + 1\<rparr>)"

text \<open>
  The pieces of \<open>hex2rgba\<close>, in the order of the source: the string without its \<open>#\<close>;
  the expansion of the three- and four-digit forms; the tests for \<open>rgba(\<dots>)\<close> and
  \<open>rgb(\<dots>)\<close>, which are reached only when the string has neither three nor four
  characters; the array each of the three branches builds.
\<close>

definition strip_hash :: "string \<Rightarrow> string" where
  "strip_hash color = (if charAt color 0 = ''#'' then substring color 1 (length color) else color)"

definition is_rgba_form :: "string \<Rightarrow> bool" where
  "is_rgba_form hex = (length hex \<noteq> 3 \<and> length hex \<noteq> 4 \<and> take 4 hex = ''rgba'')"

definition is_rgb_form :: "string \<Rightarrow> bool" where
  "is_rgb_form hex = (length hex \<noteq> 3 \<and> length hex \<noteq> 4 \<and> take 3 hex = ''rgb'')"

definition parse_rgba :: "(string \<Rightarrow> jsval) \<Rightarrow> string \<Rightarrow> jsarray" where
  "parse_rgba toNumber hex =
     (let rgba0 = map Str (split_comma (substring hex 5 (length hex - 1)));
          rgba1 = set_index rgba0 0 (div255 toNumber (get_index rgba0 0));
          rgba2 = set_index rgba1 1 (div255 toNumber (get_index rgba1 1));
          rgba3 = set_index rgba2 2 (div255 toNumber (get_index rgba2 2))
      in set_index rgba3 3 (div255 toNumber (get_index rgba3 3)))"

definition parse_rgb :: "(string \<Rightarrow> jsval) \<Rightarrow> string \<Rightarrow> jsarray" where
  "parse_rgb toNumber hex =
     (let rgba0 = map Str (split_comma (substring hex 4 (length hex - 1)));
          rgba1 = set_index rgba0 0 (div255 toNumber (get_index rgba0 0));
          rgba2 = set_index rgba1 1 (div255 toNumber (get_index rgba1 1));
          rgba3 = set_index rgba2 2 (div255 toNumber (get_index rgba2 2))
      in set_index rgba3 3 (Num 1))"

definition expand_hex :: "string \<Rightarrow> string" where
  "expand_hex hex =
     (if length hex = 3
      then concat [charAt hex 0, charAt hex 0, charAt hex 1, charAt hex 1,
                   charAt hex 2, charAt hex 2, ''ff'']
      else if length hex = 4
      then concat [charAt hex 0, charAt hex 0, charAt hex 1, charAt hex 1,
                   charAt hex 2, charAt hex 2, charAt hex 3, charAt hex 3]
      else hex)"

definition parse_hex :: "(string \<Rightarrow> jsval) \<Rightarrow> string \<Rightarrow> jsarray" where
  "parse_hex toNumber hex =
     (let cr = div255 toNumber (parseInt16 (substring hex 0 2));
          cg = div255 toNumber (parseInt16 (substring hex 2 4));
          cb = div255 toNumber (parseInt16 (substring hex 4 6));
          ca = (if length hex = 6 then Num 1
                else div255 toNumber (parseInt16 (substring hex 6 8)))
      in [cr, cg, cb, ca])"

text \<open>
  \<open>hex2rgba\<close> returns the address of the colour array. \<open>cache r color\<close> stands for
  \<open>this[color]\<close>; only the properties \<open>hex2rgba\<close> itself has stored are in it, the
  member functions of \<open>Tilt.Math\<close> are not colour strings. The two functional branches
  store the array they return. The last branch stores one array literal and returns
  another: \<open>this[color] = [r, g, b, a]; return [r, g, b, a];\<close>
\<close>

definition hex2rgba :: "(string \<Rightarrow> jsval) \<Rightarrow> renderer \<Rightarrow> string \<Rightarrow> addr \<times> renderer" where
  "hex2rgba toNumber r color =
     (case cache r color of
        Some a \<Rightarrow> (a, r)
      | None \<Rightarrow>
         (let hex = strip_hash color
          in if is_rgba_form hex
             then (let (a, r1) = alloc r (parse_rgba toNumber hex)
                   in (a, r1\<lparr>cache := (cache r1)(color \<mapsto> a)\<rparr>))
             else if is_rgb_form hex
             then (let (a, r1) = alloc r (parse_rgb toNumber hex)
                   in (a, r1\<lparr>cache := (cache r1)(color \<mapsto> a)\<rparr>))
             else (let rgba = parse_hex toNumber (expand_hex hex);
                       (stored, r1) = alloc r rgba;
                       r2 = r1\<lparr>cache := (cache r1)(color \<mapsto> stored)\<rparr>
                   in alloc r2 rgba)))"

subsection \<open>Draw-state setters\<close>

definition tint :: "(string \<Rightarrow> jsval) \<Rightarrow> renderer \<Rightarrow> string \<Rightarrow> renderer" where
  "tint toNumber r color = (let (a, r1) = hex2rgba toNumber r color in r1\<lparr>tintColor := a\<rparr>)"

definition fill :: "(string \<Rightarrow> jsval) \<Rightarrow> renderer \<Rightarrow> string \<Rightarrow> renderer" where
  "fill toNumber r color = (let (a, r1) = hex2rgba toNumber r color in r1\<lparr>fillColor := a\<rparr>)"

definition stroke :: "(string \<Rightarrow> jsval) \<Rightarrow> renderer \<Rightarrow> string \<Rightarrow> renderer" where
  "stroke toNumber r color =
     (let (a, r1) = hex2rgba toNumber r color in r1\<lparr>strokeColor := a\<rparr>)"

text \<open>The four writes \<open>c[0] = v; c[1] = v; c[2] = v; c[3] = v\<close> into the array at an address.\<close>

definition write4 :: "renderer \<Rightarrow> addr \<Rightarrow> jsval \<Rightarrow> renderer" where
  "write4 r a v =
     r\<lparr>heap := (heap r)(a := set_index (set_index (set_index (set_index (heap r a) 0 v) 1 v) 2 v) 3 v)\<rparr>"

definition noTint :: "renderer \<Rightarrow> renderer" where
  "noTint r = write4 r (tintColor r) (Num 1)"

definition noFill :: "renderer \<Rightarrow> renderer" where
  "noFill r = write4 r (fillColor r) (Num 0)"

definition noStroke :: "renderer \<Rightarrow> renderer" where
  "noStroke r = write4 r (strokeColor r) (Num 0)"

section \<open>Tilt.Math\<close>

subsection \<open>nextPowerOfTwo\<close>

text \<open>
  The bitwise operators work on 32-bit signed integers: \<open>x >> i\<close> keeps the sign and
  \<open>|\<close> gives a 32-bit result. The decrement before the loop and the increment after it
  are ordinary number arithmetic and do not wrap. The loop doubles \<open>i\<close> until it reaches 32;
  it is a partial function, and that it returns is part of what is proved about it.
\<close>

partial_function (option) spread :: "nat \<Rightarrow> 32 word \<Rightarrow> 32 word option" where
  "spread i x = (if i < 32 then spread (push_bit 1 i) (x OR signed_drop_bit i x) else Some x)"

definition nextPowerOfTwo :: "int \<Rightarrow> int option" where
  "nextPowerOfTwo x = map_option (\<lambda>w. sint w + 1) (spread 1 (word_of_int (x - 1)))"

subsection \<open>Vectors and matrices of glMatrix\<close>

text \<open>
  The points and matrices of \<open>unproject\<close> and \<open>createRay\<close> are arrays of numbers, here
  lists of reals (\<open>intersectRayTriangle\<close> has a model of its own, below). Several of them
  are written in place and returned by reference, so they live in a store of their own.
  Reading a cell that is not there gives \<open>undefined\<close> in
  JavaScript; the statements below are about arrays that have the cells that are read.
  A write just past the end extends the array; no function here writes further out
  (the model pads with zeros there).

  glMatrix functions take the destination last and work on their first argument when it
  is left out; \<open>unproject\<close> relies on it (\<open>mat4.inverse(mvpMatrix)\<close>,
  \<open>mat4.multiplyVec4(mvpMatrix, coordinates)\<close>), and so does the renderer
  (\<open>mat4.translate(this.mvMatrix, \<dots>)\<close>).
\<close>

record store =
  cells :: "addr \<Rightarrow> real list"
  fresh :: addr

definition put :: "real list \<Rightarrow> nat \<Rightarrow> real \<Rightarrow> real list" where
  "put xs i v = (if i < length xs then xs[i := v] else xs @ replicate (i - length xs) 0 @ [v])"

text \<open>Writing the three cells \<open>d[0]\<close>, \<open>d[1]\<close>, \<open>d[2]\<close>.\<close>

definition put3 :: "real list \<Rightarrow> real list \<Rightarrow> real list" where
  "put3 xs v = put (put (put xs 0 (v ! 0)) 1 (v ! 1)) 2 (v ! 2)"

definition write_cells :: "store \<Rightarrow> addr \<Rightarrow> real list \<Rightarrow> store" where
  "write_cells st a xs = st\<lparr>cells := (cells st)(a := xs)\<rparr>"

text \<open>\<open>quat4.create()\<close>: a new array of zeros.\<close>

definition create :: "store \<Rightarrow> nat \<Rightarrow> addr \<times> store" where
  "create st n = (fresh st, st\<lparr>cells := (cells st)(fresh st := replicate n 0), fresh := fresh st + 1\<rparr>)"

definition vec3_subtract :: "real list \<Rightarrow> real list \<Rightarrow> real list" where
  "vec3_subtract a b = [a ! 0 - b ! 0, a ! 1 - b ! 1, a ! 2 - b ! 2]"

text \<open>\<open>vec3.normalize\<close>: a vector of length zero gives the zero vector.\<close>

definition vec3_normalize :: "real list \<Rightarrow> real list" where
  "vec3_normalize a =
     (let len = sqrt (a ! 0 * a ! 0 + a ! 1 * a ! 1 + a ! 2 * a ! 2)
      in if len = 0 then [0, 0, 0] else [a ! 0 * (1 / len), a ! 1 * (1 / len), a ! 2 * (1 / len)])"

text \<open>\<open>mat4.multiply(a, b, dest)\<close>: the product \<open>a \<times> b\<close> of column-major matrices.\<close>

definition mat4_multiply :: "mat4 \<Rightarrow> mat4 \<Rightarrow> mat4" where
  "mat4_multiply a b =
     [b ! 0 * a ! 0 + b ! 1 * a ! 4 + b ! 2 * a ! 8 + b ! 3 * a ! 12,
      b ! 0 * a ! 1 + b ! 1 * a ! 5 + b ! 2 * a ! 9 + b ! 3 * a ! 13,
      b ! 0 * a ! 2 + b ! 1 * a ! 6 + b ! 2 * a ! 10 + b ! 3 * a ! 14,
      b ! 0 * a ! 3 + b ! 1 * a ! 7 + b ! 2 * a ! 11 + b ! 3 * a ! 15,
      b ! 4 * a ! 0 + b ! 5 * a ! 4 + b ! 6 * a ! 8 + b ! 7 * a ! 12,
      b ! 4 * a ! 1 + b ! 5 * a ! 5 + b ! 6 * a ! 9 + b ! 7 * a ! 13,
      b ! 4 * a ! 2 + b ! 5 * a ! 6 + b ! 6 * a ! 10 + b ! 7 * a ! 14,
      b ! 4 * a ! 3 + b ! 5 * a ! 7 + b ! 6 * a ! 11 + b ! 7 * a ! 15,
      b ! 8 * a ! 0 + b ! 9 * a ! 4 + b ! 10 * a ! 8 + b ! 11 * a ! 12,
      b ! 8 * a ! 1 + b ! 9 * a ! 5 + b ! 10 * a ! 9 + b ! 11 * a ! 13,
      b ! 8 * a ! 2 + b ! 9 * a ! 6 + b ! 10 * a ! 10 + b ! 11 * a ! 14,
      b ! 8 * a ! 3 + b ! 9 * a ! 7 + b ! 10 * a ! 11 + b ! 11 * a ! 15,
      b ! 12 * a ! 0 + b ! 13 * a ! 4 + b ! 14 * a ! 8 + b ! 15 * a ! 12,
      b ! 12 * a ! 1 + b ! 13 * a ! 5 + b ! 14 * a ! 9 + b ! 15 * a ! 13,
      b ! 12 * a ! 2 + b ! 13 * a ! 6 + b ! 14 * a ! 10 + b ! 15 * a ! 14,
      b ! 12 * a ! 3 + b ! 13 * a ! 7 + b ! 14 * a ! 11 + b ! 15 * a ! 15]"


text \<open>
  \<open>mat4.inverse\<close> multiplies the adjugate by \<open>1 / det\<close> and does not look at the
  determinant. With a determinant of zero JavaScript goes on with infinities and \<open>NaN\<close>;
  real numbers have neither, so the model has no result then (\<open>None\<close>).
\<close>

definition mat4_inverse :: "mat4 \<Rightarrow> mat4 option" where
  "mat4_inverse a =
     (let b00 = a ! 0 * a ! 5 - a ! 1 * a ! 4;  b01 = a ! 0 * a ! 6 - a ! 2 * a ! 4;
          b02 = a ! 0 * a ! 7 - a ! 3 * a ! 4;  b03 = a ! 1 * a ! 6 - a ! 2 * a ! 5;
          b04 = a ! 1 * a ! 7 - a ! 3 * a ! 5;  b05 = a ! 2 * a ! 7 - a ! 3 * a ! 6;
          b06 = a ! 8 * a ! 13 - a ! 9 * a ! 12;  b07 = a ! 8 * a ! 14 - a ! 10 * a ! 12;
          b08 = a ! 8 * a ! 15 - a ! 11 * a ! 12;  b09 = a ! 9 * a ! 14 - a ! 10 * a ! 13;
          b10 = a ! 9 * a ! 15 - a ! 11 * a ! 13;  b11 = a ! 10 * a ! 15 - a ! 11 * a ! 14;
          det = b00 * b11 - b01 * b10 + b02 * b09 + b03 * b08 - b04 * b07 + b05 * b06
      in if det = 0 then None
         else (let invDet = 1 / det
               in Some
                 [(a ! 5 * b11 - a ! 6 * b10 + a ! 7 * b09) * invDet,
                  (- a ! 1 * b11 + a ! 2 * b10 - a ! 3 * b09) * invDet,
                  (a ! 13 * b05 - a ! 14 * b04 + a ! 15 * b03) * invDet,
                  (- a ! 9 * b05 + a ! 10 * b04 - a ! 11 * b03) * invDet,
                  (- a ! 4 * b11 + a ! 6 * b08 - a ! 7 * b07) * invDet,
                  (a ! 0 * b11 - a ! 2 * b08 + a ! 3 * b07) * invDet,
                  (- a ! 12 * b05 + a ! 14 * b02 - a ! 15 * b01) * invDet,
                  (a ! 8 * b05 - a ! 10 * b02 + a ! 11 * b01) * invDet,
                  (a ! 4 * b10 - a ! 5 * b08 + a ! 7 * b06) * invDet,
                  (- a ! 0 * b10 + a ! 1 * b08 - a ! 3 * b06) * invDet,
                  (a ! 12 * b04 - a ! 13 * b02 + a ! 15 * b00) * invDet,
                  (- a ! 8 * b04 + a ! 9 * b02 - a ! 11 * b00) * invDet,
                  (- a ! 4 * b09 + a ! 5 * b07 - a ! 6 * b06) * invDet,
                  (a ! 0 * b09 - a ! 1 * b07 + a ! 2 * b06) * invDet,
                  (- a ! 12 * b03 + a ! 13 * b01 - a ! 14 * b00) * invDet,
                  (a ! 8 * b03 - a ! 9 * b01 + a ! 10 * b00) * invDet]))"

text \<open>\<open>mat4.multiplyVec4(m, v)\<close>: the four cells of \<open>m \<times> v\<close>.\<close>

definition mat4_multiplyVec4 :: "mat4 \<Rightarrow> real list \<Rightarrow> real list" where
  "mat4_multiplyVec4 m v =
     [m ! 0 * v ! 0 + m ! 4 * v ! 1 + m ! 8 * v ! 2 + m ! 12 * v ! 3,
      m ! 1 * v ! 0 + m ! 5 * v ! 1 + m ! 9 * v ! 2 + m ! 13 * v ! 3,
      m ! 2 * v ! 0 + m ! 6 * v ! 1 + m ! 10 * v ! 2 + m ! 14 * v ! 3,
      m ! 3 * v ! 0 + m ! 7 * v ! 1 + m ! 11 * v ! 2 + m ! 15 * v ! 3]"

definition put4 :: "real list \<Rightarrow> real list \<Rightarrow> real list" where
  "put4 xs v = put (put (put (put xs 0 (v ! 0)) 1 (v ! 1)) 2 (v ! 2)) 3 (v ! 3)"

subsection \<open>unproject and createRay\<close>

text \<open>
  The point \<open>p\<close> and the optional destination \<open>out\<close> are addresses (\<open>createRay\<close> passes
  the same array for both); the viewport and the two matrices are only read and are
  passed by value. The writes happen in the order of the source, in its three steps:
  the normalized coordinates, the transformation by the inverse matrix, the division by
  \<open>w\<close>. A division by zero (a viewport of width or height zero, a singular matrix, a \<open>w\<close>
  of zero) leaves the real numbers, and the model has no result (\<open>None\<close>).
\<close>

text \<open>\<open>coordinates[0] = \<dots>; coordinates[1] = \<dots>; coordinates[2] = \<dots>; coordinates[3] = 1;\<close>\<close>

definition normalized_coordinates :: "store \<Rightarrow> addr \<Rightarrow> real list \<Rightarrow> addr \<Rightarrow> store" where
  "normalized_coordinates st0 p viewport coordinates =
     (let st1 = write_cells st0 coordinates
                  (put (cells st0 coordinates) 0
                     ((cells st0 p ! 0 - viewport ! 0) / viewport ! 2 * 2 - 1));
          st2 = write_cells st1 coordinates
                  (put (cells st1 coordinates) 1
                     (- ((cells st1 p ! 1 - viewport ! 1) / viewport ! 3 * 2 - 1)));
          st3 = write_cells st2 coordinates
                  (put (cells st2 coordinates) 2 (2 * cells st2 p ! 2 - 1))
      in write_cells st3 coordinates (put (cells st3 coordinates) 3 1))"

text \<open>
  \<open>coordinates[3] = 1 / coordinates[3]; coordinates[0] *= coordinates[3]; \<dots>\<close>, for a
  \<open>coordinates[3]\<close> that is not zero.
\<close>

definition perspective_divide :: "store \<Rightarrow> addr \<Rightarrow> store" where
  "perspective_divide st5 coordinates =
     (let st6 = write_cells st5 coordinates
                  (put (cells st5 coordinates) 3 (1 / cells st5 coordinates ! 3));
          st7 = write_cells st6 coordinates
                  (put (cells st6 coordinates) 0
                     (cells st6 coordinates ! 0 * cells st6 coordinates ! 3));
          st8 = write_cells st7 coordinates
                  (put (cells st7 coordinates) 1
                     (cells st7 coordinates ! 1 * cells st7 coordinates ! 3))
      in write_cells st8 coordinates
           (put (cells st8 coordinates) 2
              (cells st8 coordinates ! 2 * cells st8 coordinates ! 3)))"

definition unproject ::
  "store \<Rightarrow> addr \<Rightarrow> real list \<Rightarrow> mat4 \<Rightarrow> mat4 \<Rightarrow> addr option \<Rightarrow> (addr \<times> store) option" where
  "unproject st p viewport mvMat projMat out =
     (let (coordinates, st0) = (case out of Some c \<Rightarrow> (c, st) | None \<Rightarrow> create st 4)
      in case mat4_inverse (mat4_multiply projMat mvMat) of
           None \<Rightarrow> None
         | Some mvpMatrix \<Rightarrow>
            if viewport ! 2 = 0 \<or> viewport ! 3 = 0 then None
            else
             (let st4 = normalized_coordinates st0 p viewport coordinates;
                  st5 = write_cells st4 coordinates
                          (put4 (cells st4 coordinates)
                             (mat4_multiplyVec4 mvpMatrix (cells st4 coordinates)))
              in if cells st5 coordinates ! 3 = 0 then None
                 else Some (coordinates, perspective_divide st5 coordinates)))"

record ray =
  position :: addr
  lookAt :: addr
  direction :: addr

text \<open>
  \<open>vec3.subtract(p1, p0)\<close> and \<open>vec3.normalize(\<dots>)\<close> are called without a destination:
  both write into \<open>p1\<close> and return it.
\<close>

definition createRay ::
  "store \<Rightarrow> addr \<Rightarrow> addr \<Rightarrow> real list \<Rightarrow> mat4 \<Rightarrow> mat4 \<Rightarrow> (ray \<times> store) option" where
  "createRay st p0 p1 viewport mvMat projMat =
     (case unproject st p0 viewport mvMat projMat (Some p0) of
        None \<Rightarrow> None
      | Some (q0, st1) \<Rightarrow>
         (case unproject st1 p1 viewport mvMat projMat (Some p1) of
            None \<Rightarrow> None
          | Some (q1, st2) \<Rightarrow>
             (let st3 = write_cells st2 p1
                          (put3 (cells st2 p1) (vec3_subtract (cells st2 p1) (cells st2 p0)));
                  st4 = write_cells st3 p1 (put3 (cells st3 p1) (vec3_normalize (cells st3 p1)))
              in Some (\<lparr>position = p0, lookAt = p1, direction = p1\<rparr>, st4))))"

subsection \<open>intersectRayTriangle\<close>

text \<open>
  What \<open>intersectRayTriangle\<close> returns depends on how numbers are rounded. Its temporaries
  \<open>u\<close>, \<open>v\<close>, \<open>n\<close>, \<open>w\<close> and \<open>w0\<close> come from \<open>vec3.create()\<close> and are \<open>Float32Array\<close>s:
  every number stored in them is rounded to single precision, while the dot products and
  \<open>a\<close>, \<open>b\<close>, \<open>r\<close>, \<open>D\<close>, \<open>s\<close> and \<open>t\<close> are double-precision numbers. So this function is not
  modelled over the reals. Its arithmetic is a parameter: a record with the operations the
  function uses on JavaScript numbers (\<open>+\<close>, \<open>-\<close>, \<open>*\<close>, \<open>/\<close>, unary minus, \<open>Math.abs\<close>, \<open><\<close>
  and the test \<open>x === 0\<close>), the rounding of a store into a \<open>Float32Array\<close>, and the constants
  \<open>NaN\<close>, 0, 1 and 0.0001. Nothing is assumed about them, so what is proved for every
  such record holds for the IEEE numbers of JavaScript. \<open>x > y\<close> is \<open>y < x\<close>; on numbers
  \<open>a == 0\<close> is \<open>a === 0\<close>.
\<close>

record 'n arith =
  n_add :: "'n \<Rightarrow> 'n \<Rightarrow> 'n"
  n_sub :: "'n \<Rightarrow> 'n \<Rightarrow> 'n"
  n_mul :: "'n \<Rightarrow> 'n \<Rightarrow> 'n"
  n_div :: "'n \<Rightarrow> 'n \<Rightarrow> 'n"
  n_neg :: "'n \<Rightarrow> 'n"
  n_abs :: "'n \<Rightarrow> 'n"
  n_less :: "'n \<Rightarrow> 'n \<Rightarrow> bool"
  n_is_zero :: "'n \<Rightarrow> bool"
  n_fround :: "'n \<Rightarrow> 'n"
  n_nan :: 'n
  n_zero :: 'n
  n_one :: 'n
  n_eps :: 'n

text \<open>
  The vertices, the two arrays of the ray and the destination are arrays of numbers that
  the caller owns: addresses into a memory. An array is a plain \<open>Array\<close> or a
  \<open>Float32Array\<close> (\<open>typed\<close>). A cell that is not there reads as \<open>undefined\<close>, which every
  operation of this function turns into \<open>NaN\<close>: it reads as \<open>NaN\<close>. A write into a
  \<open>Float32Array\<close> rounds the number, and does nothing when the index is outside the array;
  a write past the end of a plain array extends it.
\<close>

record 'n memory =
  content :: "addr \<Rightarrow> 'n list"
  typed :: "addr \<Rightarrow> bool"
  unused :: addr

definition cell :: "'n arith \<Rightarrow> 'n list \<Rightarrow> nat \<Rightarrow> 'n" where
  "cell A xs k = (if k < length xs then xs ! k else n_nan A)"

definition assign :: "'n arith \<Rightarrow> bool \<Rightarrow> 'n list \<Rightarrow> nat \<Rightarrow> 'n \<Rightarrow> 'n list" where
  "assign A ty xs k v =
     (if ty then (if k < length xs then xs[k := n_fround A v] else xs)
      else (if k < length xs then xs[k := v]
            else xs @ replicate (k - length xs) (n_nan A) @ [v]))"

definition load :: "'n arith \<Rightarrow> 'n memory \<Rightarrow> addr \<Rightarrow> nat \<Rightarrow> 'n" where
  "load A m a k = cell A (content m a) k"

definition store_at :: "'n arith \<Rightarrow> 'n memory \<Rightarrow> addr \<Rightarrow> nat \<Rightarrow> 'n \<Rightarrow> 'n memory" where
  "store_at A m a k v = m\<lparr>content := (content m)(a := assign A (typed m a) (content m a) k v)\<rparr>"

text \<open>\<open>vec3.create()\<close>: a new \<open>Float32Array\<close> of three zeros.\<close>

definition vec3_create :: "'n arith \<Rightarrow> 'n memory \<Rightarrow> addr \<times> 'n memory" where
  "vec3_create A m =
     (unused m,
      m\<lparr>content := (content m)(unused m := [n_zero A, n_zero A, n_zero A]),
        typed := (typed m)(unused m := True),
        unused := unused m + 1\<rparr>)"

text \<open>
  \<open>vec3.subtract(a, b, dest)\<close> and \<open>vec3.cross(a, b, dest)\<close> with one of the temporaries
  as \<open>dest\<close>: the three cells of that \<open>Float32Array\<close> afterwards. The temporaries never leave
  the function and no argument can be one of them; they are values.
\<close>

definition vec3_subtract_to :: "'n arith \<Rightarrow> 'n list \<Rightarrow> 'n list \<Rightarrow> 'n list" where
  "vec3_subtract_to A a b =
     [n_fround A (n_sub A (cell A a 0) (cell A b 0)),
      n_fround A (n_sub A (cell A a 1) (cell A b 1)),
      n_fround A (n_sub A (cell A a 2) (cell A b 2))]"

definition vec3_cross_to :: "'n arith \<Rightarrow> 'n list \<Rightarrow> 'n list \<Rightarrow> 'n list" where
  "vec3_cross_to A a b =
     [n_fround A (n_sub A (n_mul A (cell A a 1) (cell A b 2)) (n_mul A (cell A a 2) (cell A b 1))),
      n_fround A (n_sub A (n_mul A (cell A a 2) (cell A b 0)) (n_mul A (cell A a 0) (cell A b 2))),
      n_fround A (n_sub A (n_mul A (cell A a 0) (cell A b 1)) (n_mul A (cell A a 1) (cell A b 0)))]"

text \<open>\<open>vec3.dot(a, b)\<close>: \<open>a[0]*b[0] + a[1]*b[1] + a[2]*b[2]\<close>, a number.\<close>

definition vec3_dot :: "'n arith \<Rightarrow> 'n list \<Rightarrow> 'n list \<Rightarrow> 'n" where
  "vec3_dot A a b =
     n_add A (n_add A (n_mul A (cell A a 0) (cell A b 0)) (n_mul A (cell A a 1) (cell A b 1)))
       (n_mul A (cell A a 2) (cell A b 2))"

text \<open>
  \<open>vec3.scale(vec, val)\<close> has no destination: \<open>vec[0] *= val; vec[1] *= val; vec[2] *= val\<close>,
  in the array of the caller.
\<close>

definition vec3_scale_in_place :: "'n arith \<Rightarrow> 'n memory \<Rightarrow> addr \<Rightarrow> 'n \<Rightarrow> 'n memory" where
  "vec3_scale_in_place A m vec val =
     (let m1 = store_at A m vec 0 (n_mul A (load A m vec 0) val);
          m2 = store_at A m1 vec 1 (n_mul A (load A m1 vec 1) val)
      in store_at A m2 vec 2 (n_mul A (load A m2 vec 2) val))"

text \<open>
  \<open>vec3.add(vec, vec2, dest)\<close>: \<open>dest[0] = vec[0] + vec2[0]\<close> and so on, one cell after the
  other (\<open>vec[0] += vec2[0]\<close> when \<open>dest\<close> is \<open>vec\<close>, which writes the same numbers).
\<close>

definition vec3_add_to :: "'n arith \<Rightarrow> 'n memory \<Rightarrow> addr \<Rightarrow> addr \<Rightarrow> addr \<Rightarrow> 'n memory" where
  "vec3_add_to A m vec vec2 dest =
     (let m1 = store_at A m dest 0 (n_add A (load A m vec 0) (load A m vec2 0));
          m2 = store_at A m1 dest 1 (n_add A (load A m1 vec 1) (load A m1 vec2 1))
      in store_at A m2 dest 2 (n_add A (load A m2 vec 2) (load A m2 vec2 2)))"

text \<open>
  The function itself. \<open>vec3.scale(dir, r)\<close> scales the direction array of the ray where it
  is and returns it, so \<open>vec3.add\<close> reads the scaled array; \<open>w\<close> is computed from what the
  destination and \<open>v0\<close> hold after these writes.
\<close>

definition intersectRayTriangle ::
  "'n arith \<Rightarrow> 'n memory \<Rightarrow> addr \<Rightarrow> addr \<Rightarrow> addr \<Rightarrow> ray \<Rightarrow> addr option \<Rightarrow> int \<times> 'n memory" where
  "intersectRayTriangle A m v0 v1 v2 ray intersection =
     (let pos = position ray;
          dir = direction ray;
          (i, m0) = (case intersection of Some i \<Rightarrow> (i, m) | None \<Rightarrow> vec3_create A m);
          u = vec3_subtract_to A (content m0 v1) (content m0 v0);
          v = vec3_subtract_to A (content m0 v2) (content m0 v0);
          n = vec3_cross_to A u v
      in if n_is_zero A (n ! 0) \<and> n_is_zero A (n ! 1) \<and> n_is_zero A (n ! 2) then (- 1, m0)
         else
          (let w0 = vec3_subtract_to A (content m0 pos) (content m0 v0);
               a = n_neg A (vec3_dot A n w0);
               b = vec3_dot A n (content m0 dir)
           in if n_less A (n_abs A b) (n_eps A)
              then (if n_is_zero A a then (2, m0) else (0, m0))
              else
               (let r = n_div A a b
                in if n_less A r (n_zero A) then (0, m0)
                   else
                    (let m1 = vec3_scale_in_place A m0 dir r;
                         m2 = vec3_add_to A m1 pos dir i;
                         uu = vec3_dot A u u;
                         uv = vec3_dot A u v;
                         vv = vec3_dot A v v;
                         w = vec3_subtract_to A (content m2 i) (content m2 v0);
                         wu = vec3_dot A w u;
                         wv = vec3_dot A w v;
                         D = n_sub A (n_mul A uv uv) (n_mul A uu vv);
                         s = n_div A (n_sub A (n_mul A uv wv) (n_mul A vv wu)) D
                     in if n_less A s (n_zero A) \<or> n_less A (n_one A) s then (0, m2)
                        else
                         (let t = n_div A (n_sub A (n_mul A uv wu) (n_mul A uu wv)) D
                          in if n_less A t (n_zero A) \<or> n_less A (n_one A) (n_add A s t)
                             then (0, m2) else (1, m2))))))"

section \<open>Calls, call sequences and sample states\<close>

text \<open>A sequence of \<open>pushMatrix\<close> and \<open>popMatrix\<close> calls, run from left to right.\<close>

datatype stack_op = Push | Pop

fun apply_stack_op :: "renderer \<Rightarrow> stack_op \<Rightarrow> renderer" where
  "apply_stack_op r Push = pushMatrix r"
| "apply_stack_op r Pop = popMatrix r"

definition run_stack_ops :: "renderer \<Rightarrow> stack_op list \<Rightarrow> renderer" where
  "run_stack_ops r ops = foldl apply_stack_op r ops"

text \<open>No pop precedes its matching push: no prefix has more pops than pushes.\<close>

definition pops_matched :: "stack_op list \<Rightarrow> bool" where
  "pops_matched ops =
     list_all (\<lambda>k. count_list (take k ops) Pop \<le> count_list (take k ops) Push)
       [0..<Suc (length ops)]"

text \<open>The backend calls made between a state and a later one.\<close>

definition issued :: "renderer \<Rightarrow> renderer \<Rightarrow> gl_call list" where
  "issued r r' = drop (length (gl r)) (gl r')"

text \<open>What \<open>useColorShader\<close> and \<open>useTextureShader\<close> send to the backend.\<close>

definition color_pass :: "mat4 \<Rightarrow> mat4 \<Rightarrow> buffer \<Rightarrow> addr \<Rightarrow> gl_call list" where
  "color_pass mv proj vertices color =
     [ProgramUse ColorShader,
      BindVertexBuffer ColorShader ''vertexPosition'' vertices,
      BindUniformMatrix ColorShader ''mvMatrix'' mv,
      BindUniformMatrix ColorShader ''projMatrix'' proj,
      BindUniformVec4 ColorShader ''color'' color]"

definition texture_pass ::
  "mat4 \<Rightarrow> mat4 \<Rightarrow> buffer \<Rightarrow> buffer \<Rightarrow> addr \<Rightarrow> texture \<Rightarrow> gl_call list" where
  "texture_pass mv proj vertices texCoord color tex =
     [ProgramUse TextureShader,
      BindVertexBuffer TextureShader ''vertexPosition'' vertices,
      BindVertexBuffer TextureShader ''vertexTexCoord'' texCoord,
      BindUniformMatrix TextureShader ''mvMatrix'' mv,
      BindUniformMatrix TextureShader ''projMatrix'' proj,
      BindUniformVec4 TextureShader ''color'' color,
      BindTexture TextureShader ''sampler'' tex]"

text \<open>
  A renderer as its constructor leaves the fields before \<open>defaults()\<close>: an empty stack,
  identity matrices, the three colour slots on arrays \<open>[0, 0, 0, 0]\<close> of their own. The
  item counts of the built-in buffers are sample values. \<open>opaque_renderer\<close> is the same
  with every colour array \<open>[1, 1, 1, 1]\<close>.
\<close>

definition sample_renderer :: renderer where
  "sample_renderer =
     \<lparr>heap = (\<lambda>a. [Num 0, Num 0, Num 0, Num 0]),
      next_addr = 4,
      cache = Map.empty,
      mvMatrixStack = [],
      mvMatrix = [1, 0, 0, 0, 0, 1, 0, 0, 0, 0, 1, 0, 0, 0, 0, 1],
      projMatrix = [1, 0, 0, 0, 0, 1, 0, 0, 0, 0, 1, 0, 0, 0, 0, 1],
      tintColor = 1,
      fillColor = 2,
      strokeColor = 3,
      strokeWeightValue = 0,
      rectModeValue = ''corner'',
      imageModeValue = ''corner'',
      rectangle_vertices = \<lparr>buf_ref = 0, numItems = 4\<rparr>,
      rectangle_texCoord = \<lparr>buf_ref = 1, numItems = 4\<rparr>,
      rectangleWireframe_vertices = \<lparr>buf_ref = 2, numItems = 5\<rparr>,
      cube_vertices = \<lparr>buf_ref = 3, numItems = 8\<rparr>,
      cube_texCoord = \<lparr>buf_ref = 4, numItems = 8\<rparr>,
      cube_indices = \<lparr>buf_ref = 5, numItems = 36\<rparr>,
      cubeWireframe_vertices = \<lparr>buf_ref = 6, numItems = 8\<rparr>,
      cubeWireframe_indices = \<lparr>buf_ref = 7, numItems = 24\<rparr>,
      next_buffer = 8,
      gl = []\<rparr>"

definition opaque_renderer :: renderer where
  "opaque_renderer = sample_renderer\<lparr>heap := (\<lambda>a. [Num 1, Num 1, Num 1, Num 1])\<rparr>"

definition sample_texture :: texture where
  "sample_texture = \<lparr>tex_ref = 0, tex_width = 64, tex_height = 32\<rparr>"

text \<open>
  The colour strings in functional notation, \<open>rgb(\<dots>)\<close> and \<open>rgba(\<dots>)\<close>: the ones
  \<open>hex2rgba\<close> sends to one of its first two branches. All others are read as hexadecimal.
\<close>

definition functional_form :: "string \<Rightarrow> bool" where
  "functional_form color = is_rgb_form (strip_hash color)"

text \<open>
  A sequence of \<open>tint\<close>, \<open>fill\<close>, \<open>stroke\<close>, \<open>noTint\<close>, \<open>noFill\<close> and \<open>noStroke\<close> calls, run
  from left to right.
\<close>

datatype color_op = Tint string | Fill string | Stroke string | NoTint | NoFill | NoStroke

fun apply_color_op :: "(string \<Rightarrow> jsval) \<Rightarrow> renderer \<Rightarrow> color_op \<Rightarrow> renderer" where
  "apply_color_op toNumber r (Tint c) = tint toNumber r c"
| "apply_color_op toNumber r (Fill c) = fill toNumber r c"
| "apply_color_op toNumber r (Stroke c) = stroke toNumber r c"
| "apply_color_op toNumber r NoTint = noTint r"
| "apply_color_op toNumber r NoFill = noFill r"
| "apply_color_op toNumber r NoStroke = noStroke r"

definition run_color_ops ::
  "(string \<Rightarrow> jsval) \<Rightarrow> renderer \<Rightarrow> color_op list \<Rightarrow> renderer" where
  "run_color_ops toNumber r ops = foldl (apply_color_op toNumber) r ops"

text \<open>
  No \<open>noTint\<close> of the sequence is called while the tint slot holds the array at the
  address \<open>a\<close>.
\<close>

fun noTint_spares :: "(string \<Rightarrow> jsval) \<Rightarrow> addr \<Rightarrow> renderer \<Rightarrow> color_op list \<Rightarrow> bool" where
  "noTint_spares toNumber a r [] = True"
| "noTint_spares toNumber a r (op # ops) =
     ((op \<noteq> NoTint \<or> tintColor r \<noteq> a) \<and> noTint_spares toNumber a (apply_color_op toNumber r op) ops)"

text \<open>The four components of the colour at an address: the first four cells of the array.\<close>

definition components :: "renderer \<Rightarrow> addr \<Rightarrow> jsval list" where
  "components r a = take 4 (heap r a)"

text \<open>\<open>opaque_renderer\<close> after \<open>''#fff''\<close> has been cached, at address 0.\<close>

definition cached_renderer :: renderer where
  "cached_renderer = opaque_renderer\<lparr>cache := [''#fff'' \<mapsto> 0]\<rparr>"

text \<open>
  The invariant of the calls that follow \<open>noFill\<close>: the string is still cached at the same
  address, the address is an allocated one, and its colour is all zeros.
\<close>

definition cached_zero :: "string \<Rightarrow> addr \<Rightarrow> renderer \<Rightarrow> bool" where
  "cached_zero c a r \<longleftrightarrow>
     cache r c = Some a \<and> a < next_addr r \<and> components r a = [Num 0, Num 0, Num 0, Num 0]"

text \<open>
  One round of the loop of \<open>nextPowerOfTwo\<close>, and what the rounds achieve: after the
  rounds with shifts \<open>1, 2, \<dots>, w / 2\<close> bit \<open>n\<close> of the result is set exactly when one of the
  \<open>w\<close> bits \<open>n, \<dots>, n + w - 1\<close> of the start value is.
\<close>

definition spread_step :: "nat \<Rightarrow> 32 word \<Rightarrow> 32 word" where
  "spread_step i x = x OR signed_drop_bit i x"

definition window :: "nat \<Rightarrow> 32 word \<Rightarrow> 32 word \<Rightarrow> bool" where
  "window w x y \<longleftrightarrow> (\<forall>n. bit y n \<longleftrightarrow> (\<exists>d<w. bit x (n + d)))"

text \<open>
  The quantities the description of \<open>intersectRayTriangle\<close> names, as functions of the
  arrays the caller passes, with the arithmetic and the rounding of the code: the normal
  \<open>n = (p1 - p0) \<times> (p2 - p0)\<close>, \<open>a = - n \<sqdot> (pos - p0)\<close>, \<open>b = n \<sqdot> dir\<close>, \<open>r = a / b\<close>, the direction
  scaled by \<open>r\<close>, the point \<open>pos + r dir\<close> as it stands in the destination, and the parametric
  coordinates \<open>s\<close> and \<open>t\<close> of a point against the two edges. \<open>intersection_code\<close> is the
  result the description gives. None of them knows which of the arrays are one and the same
  object.
\<close>

text \<open>The three writes \<open>d[0] = \<dots>; d[1] = \<dots>; d[2] = \<dots>\<close> into one array.\<close>

definition assign3 :: "'n arith \<Rightarrow> bool \<Rightarrow> 'n list \<Rightarrow> 'n list \<Rightarrow> 'n list" where
  "assign3 A ty xs vals =
     assign A ty (assign A ty (assign A ty xs 0 (vals ! 0)) 1 (vals ! 1)) 2 (vals ! 2)"

definition triangle_normal :: "'n arith \<Rightarrow> 'n list \<Rightarrow> 'n list \<Rightarrow> 'n list \<Rightarrow> 'n list" where
  "triangle_normal A p0 p1 p2 = vec3_cross_to A (vec3_subtract_to A p1 p0) (vec3_subtract_to A p2 p0)"

definition normal_is_zero :: "'n arith \<Rightarrow> 'n list \<Rightarrow> 'n list \<Rightarrow> 'n list \<Rightarrow> bool" where
  "normal_is_zero A p0 p1 p2 =
     (n_is_zero A (triangle_normal A p0 p1 p2 ! 0) \<and> n_is_zero A (triangle_normal A p0 p1 p2 ! 1) \<and>
      n_is_zero A (triangle_normal A p0 p1 p2 ! 2))"

definition plane_a :: "'n arith \<Rightarrow> 'n list \<Rightarrow> 'n list \<Rightarrow> 'n list \<Rightarrow> 'n list \<Rightarrow> 'n" where
  "plane_a A p0 p1 p2 pos =
     n_neg A (vec3_dot A (triangle_normal A p0 p1 p2) (vec3_subtract_to A pos p0))"

definition plane_b :: "'n arith \<Rightarrow> 'n list \<Rightarrow> 'n list \<Rightarrow> 'n list \<Rightarrow> 'n list \<Rightarrow> 'n" where
  "plane_b A p0 p1 p2 dir = vec3_dot A (triangle_normal A p0 p1 p2) dir"

definition plane_r :: "'n arith \<Rightarrow> 'n list \<Rightarrow> 'n list \<Rightarrow> 'n list \<Rightarrow> 'n list \<Rightarrow> 'n list \<Rightarrow> 'n" where
  "plane_r A p0 p1 p2 pos dir = n_div A (plane_a A p0 p1 p2 pos) (plane_b A p0 p1 p2 dir)"

text \<open>The direction array with its first three cells multiplied by \<open>r\<close>.\<close>

definition scaled_direction :: "'n arith \<Rightarrow> bool \<Rightarrow> 'n list \<Rightarrow> 'n \<Rightarrow> 'n list" where
  "scaled_direction A ty dir r =
     assign3 A ty dir
       [n_mul A (cell A dir 0) r, n_mul A (cell A dir 1) r, n_mul A (cell A dir 2) r]"

definition vec3_sum :: "'n arith \<Rightarrow> 'n list \<Rightarrow> 'n list \<Rightarrow> 'n list" where
  "vec3_sum A a b =
     [n_add A (cell A a 0) (cell A b 0), n_add A (cell A a 1) (cell A b 1),
      n_add A (cell A a 2) (cell A b 2)]"

text \<open>
  The destination array \<open>out\<close> with \<open>pos + r dir\<close> in its first three cells. \<open>ty_dir\<close> and
  \<open>ty_out\<close> say whether the direction and the destination are \<open>Float32Array\<close>s.
\<close>

definition plane_point ::
  "'n arith \<Rightarrow> 'n list \<Rightarrow> bool \<Rightarrow> 'n list \<Rightarrow> 'n \<Rightarrow> bool \<Rightarrow> 'n list \<Rightarrow> 'n list" where
  "plane_point A pos ty_dir dir r ty_out out =
     assign3 A ty_out out (vec3_sum A pos (scaled_direction A ty_dir dir r))"

definition param_s :: "'n arith \<Rightarrow> 'n list \<Rightarrow> 'n list \<Rightarrow> 'n list \<Rightarrow> 'n list \<Rightarrow> 'n" where
  "param_s A p0 p1 p2 pt =
     (let u = vec3_subtract_to A p1 p0; v = vec3_subtract_to A p2 p0;
          w = vec3_subtract_to A pt p0
      in n_div A
           (n_sub A (n_mul A (vec3_dot A u v) (vec3_dot A w v))
              (n_mul A (vec3_dot A v v) (vec3_dot A w u)))
           (n_sub A (n_mul A (vec3_dot A u v) (vec3_dot A u v))
              (n_mul A (vec3_dot A u u) (vec3_dot A v v))))"

definition param_t :: "'n arith \<Rightarrow> 'n list \<Rightarrow> 'n list \<Rightarrow> 'n list \<Rightarrow> 'n list \<Rightarrow> 'n" where
  "param_t A p0 p1 p2 pt =
     (let u = vec3_subtract_to A p1 p0; v = vec3_subtract_to A p2 p0;
          w = vec3_subtract_to A pt p0
      in n_div A
           (n_sub A (n_mul A (vec3_dot A u v) (vec3_dot A w u))
              (n_mul A (vec3_dot A u u) (vec3_dot A w v)))
           (n_sub A (n_mul A (vec3_dot A u v) (vec3_dot A u v))
              (n_mul A (vec3_dot A u u) (vec3_dot A v v))))"

definition intersection_code ::
  "'n arith \<Rightarrow> 'n list \<Rightarrow> 'n list \<Rightarrow> 'n list \<Rightarrow> 'n list \<Rightarrow> bool \<Rightarrow> 'n list \<Rightarrow> bool \<Rightarrow> 'n list \<Rightarrow> int" where
  "intersection_code A p0 p1 p2 pos ty_dir dir ty_out out =
     (let a = plane_a A p0 p1 p2 pos; b = plane_b A p0 p1 p2 dir;
          r = plane_r A p0 p1 p2 pos dir;
          s = param_s A p0 p1 p2 (plane_point A pos ty_dir dir r ty_out out);
          t = param_t A p0 p1 p2 (plane_point A pos ty_dir dir r ty_out out)
      in if normal_is_zero A p0 p1 p2 then - 1
         else if n_less A (n_abs A b) (n_eps A) then (if n_is_zero A a then 2 else 0)
         else if n_less A r (n_zero A) then 0
         else if n_less A s (n_zero A) \<or> n_less A (n_one A) s then 0
         else if n_less A t (n_zero A) \<or> n_less A (n_one A) (n_add A s t) then 0
         else 1)"

text \<open>
  Where \<open>intersectRayTriangle\<close> writes the point: the array supplied, or else the next new
  one, a \<open>Float32Array\<close> of three zeros.
\<close>

definition out_array :: "'n memory \<Rightarrow> addr option \<Rightarrow> addr" where
  "out_array m intersection = (case intersection of Some i \<Rightarrow> i | None \<Rightarrow> unused m)"

definition out_typed :: "'n memory \<Rightarrow> addr option \<Rightarrow> bool" where
  "out_typed m intersection = (case intersection of Some i \<Rightarrow> typed m i | None \<Rightarrow> True)"

definition out_content :: "'n arith \<Rightarrow> 'n memory \<Rightarrow> addr option \<Rightarrow> 'n list" where
  "out_content A m intersection =
     (case intersection of Some i \<Rightarrow> content m i | None \<Rightarrow> [n_zero A, n_zero A, n_zero A])"

text \<open>
  Exact arithmetic, for the sample calls: the numbers are reals and rounding changes
  nothing. In the samples every number that comes up is a small multiple of a power of
  two and every divisor is 1, -1 or -2, so single and double precision compute the same
  numbers; 0.0001 is only compared, with 1; and every array has the three cells that are
  read, so that no \<open>NaN\<close> comes up (0 stands for it here).
\<close>

definition real_arith :: "real arith" where
  "real_arith =
     \<lparr>n_add = (+), n_sub = (-), n_mul = (*), n_div = (/), n_neg = uminus, n_abs = abs,
      n_less = (<), n_is_zero = (\<lambda>x. x = 0), n_fround = (\<lambda>x. x), n_nan = 0,
      n_zero = 0, n_one = 1, n_eps = 1 / 10000\<rparr>"


text \<open>
  A memory of plain arrays with the triangle \<open>(0,0,0), (1,0,0), (0,1,0)\<close> at the addresses
  0, 1 and 2, a ray from \<open>pos\<close> (address 3) straight down the z axis (address 4) and a
  destination (address 5).
\<close>

definition sample_memory :: "real list \<Rightarrow> real memory" where
  "sample_memory pos =
     \<lparr>content = (\<lambda>a. if a < 6
                       then [[0, 0, 0], [1, 0, 0], [0, 1, 0], pos, [0, 0, - 1], [0, 0, 0]] ! a
                       else []),
      typed = (\<lambda>a. False),
      unused = 6\<rparr>"

definition sample_ray :: ray where
  "sample_ray = \<lparr>position = 3, lookAt = 4, direction = 4\<rparr>"

text \<open>
  A ray whose position and direction are one array \<open>p\<close> (address 3), under the triangle
  \<open>(0,0,3), (1,0,3), (0,1,3)\<close>, and a destination (address 4).
\<close>

definition shared_memory :: "real list \<Rightarrow> real memory" where
  "shared_memory p =
     \<lparr>content = (\<lambda>a. if a < 5 then [[0, 0, 3], [1, 0, 3], [0, 1, 3], p, [0, 0, 0]] ! a else []),
      typed = (\<lambda>a. False),
      unused = 5\<rparr>"

definition shared_ray :: ray where
  "shared_ray = \<lparr>position = 3, lookAt = 3, direction = 3\<rparr>"

text \<open>
  A ray from \<open>(1/4, 1/2, 3/2)\<close> (address 3) whose direction is the array of the first vertex
  \<open>(0,0,-1)\<close> of the triangle \<open>(0,0,-1), (1,0,-1), (0,1,0)\<close>.
\<close>

definition slanted_memory :: "real memory" where
  "slanted_memory =
     \<lparr>content = (\<lambda>a. if a < 5
                       then [[0, 0, - 1], [1, 0, - 1], [0, 1, 0], [1 / 4, 1 / 2, 3 / 2],
                             [0, 0, 0]] ! a
                       else []),
      typed = (\<lambda>a. False),
      unused = 5\<rparr>"

definition slanted_ray :: ray where
  "slanted_ray = \<lparr>position = 3, lookAt = 0, direction = 0\<rparr>"


text \<open>
  What \<open>unproject\<close> computes, on values: the normalized device coordinates of a window
  point (x and z mapped to \<open>[-1, 1]\<close>, y mapped and flipped, \<open>w = 1\<close>), and the four numbers
  it leaves in the destination, if any.
\<close>

definition window_to_ndc :: "real list \<Rightarrow> real list \<Rightarrow> real list" where
  "window_to_ndc p viewport =
     [(p ! 0 - viewport ! 0) / viewport ! 2 * 2 - 1,
      - ((p ! 1 - viewport ! 1) / viewport ! 3 * 2 - 1),
      2 * p ! 2 - 1,
      1]"

definition unprojected :: "real list \<Rightarrow> real list \<Rightarrow> mat4 \<Rightarrow> mat4 \<Rightarrow> real list option" where
  "unprojected p viewport mvMat projMat =
     (case mat4_inverse (mat4_multiply projMat mvMat) of
        None \<Rightarrow> None
      | Some mvpMatrix \<Rightarrow>
         if viewport ! 2 = 0 \<or> viewport ! 3 = 0 then None
         else (let v = mat4_multiplyVec4 mvpMatrix (window_to_ndc p viewport)
               in if v ! 3 = 0 then None
                  else Some [v ! 0 * (1 / v ! 3), v ! 1 * (1 / v ! 3), v ! 2 * (1 / v ! 3),
                             1 / v ! 3]))"



text \<open>
  Sample data for the picking functions: the identity, a matrix that exchanges z and w
  (it is its own inverse), and a store with the window points \<open>(1, 1, 1/2)\<close> and
  \<open>(3, 1, 1/2)\<close> at the addresses 0 and 1.
\<close>

definition mat4_identity :: mat4 where
  "mat4_identity = [1, 0, 0, 0, 0, 1, 0, 0, 0, 0, 1, 0, 0, 0, 0, 1]"


definition picking_store :: store where
  "picking_store =
     \<lparr>cells = (\<lambda>a. if a = 0 then [1, 1, 1 / 2] else if a = 1 then [3, 1, 1 / 2] else []),
      fresh = 2\<rparr>"

section \<open>Properties\<close>

subsection \<open>The matrix stack\<close>

lemma depth_pushMatrix: "length (mvMatrixStack (pushMatrix r)) = Suc (length (mvMatrixStack r))"
  by (simp add: pushMatrix_def)

lemma depth_popMatrix: "length (mvMatrixStack (popMatrix r)) = length (mvMatrixStack r) - 1"
  by (simp add: popMatrix_def)

lemma pops_matched_iff:
  "pops_matched ops \<longleftrightarrow>
     (\<forall>k. k \<le> length ops \<longrightarrow> count_list (take k ops) Pop \<le> count_list (take k ops) Push)"
  unfolding pops_matched_def list_all_iff set_upt by (simp add: Ball_def less_Suc_eq_le)

lemma pops_matched_prefix:
  assumes "pops_matched (ops @ [x])"
  shows "pops_matched ops"
  unfolding pops_matched_iff
proof (intro allI impI)
  fix k assume k: "k \<le> length ops"
  have "take k (ops @ [x]) = take k ops" using k by simp
  moreover have "k \<le> length (ops @ [x])" using k by simp
  ultimately show "count_list (take k ops) Pop \<le> count_list (take k ops) Push"
    using assms unfolding pops_matched_iff by metis
qed

lemma pops_matched_whole:
  assumes "pops_matched ops"
  shows "count_list ops Pop \<le> count_list ops Push"
proof -
  have "count_list (take (length ops) ops) Pop \<le> count_list (take (length ops) ops) Push"
    using assms unfolding pops_matched_iff by blast
  then show ?thesis by simp
qed

text \<open>
  The depth is followed from the end of the sequence: a last pop is matched, so the depth
  before it is positive.
\<close>

lemma depth_run_stack_ops:
  "pops_matched ops \<Longrightarrow>
     length (mvMatrixStack (run_stack_ops r ops)) + count_list ops Pop =
     length (mvMatrixStack r) + count_list ops Push"
proof (induction ops rule: rev_induct)
  case Nil
  then show ?case by (simp add: run_stack_ops_def)
next
  case (snoc x xs)
  have m: "pops_matched xs" using snoc.prems by (rule pops_matched_prefix)
  note ih = snoc.IH [OF m]
  have w: "count_list (xs @ [x]) Pop \<le> count_list (xs @ [x]) Push"
    using snoc.prems by (rule pops_matched_whole)
  show ?case
  proof (cases x)
    case Push
    then show ?thesis using ih by (simp add: run_stack_ops_def depth_pushMatrix)
  next
    case Pop
    then show ?thesis using ih w by (simp add: run_stack_ops_def depth_popMatrix)
  qed
qed

text \<open>
  C3. After a sequence of \<open>pushMatrix\<close>/\<open>popMatrix\<close> calls with \<open>n\<close> pushes and \<open>m\<close> pops in
  which no pop precedes its matching push, \<open>m \<le> n\<close> and the stack is \<open>n - m\<close> deeper than
  before (\<open>n - m\<close> deep from an empty stack). \<open>popMatrix\<close> on an empty stack returns the
  state as it was: the stack, the current model-view matrix and everything else.
\<close>

theorem stack_depth_after_pushes_and_pops:
  "(pops_matched ops \<longrightarrow>
      count_list ops Pop \<le> count_list ops Push \<and>
      length (mvMatrixStack (run_stack_ops r ops)) =
        length (mvMatrixStack r) + (count_list ops Push - count_list ops Pop)) \<and>
   (mvMatrixStack r = [] \<longrightarrow>
      popMatrix r = r \<and> mvMatrix (popMatrix r) = mvMatrix r \<and> mvMatrixStack (popMatrix r) = [])"
  using depth_run_stack_ops [of ops r] pops_matched_whole [of ops]
  by (auto simp add: popMatrix_def)

theorem stack_depth_after_pushes_and_pops_witness:
  "pops_matched [Push, Push, Pop, Push, Pop] \<and>
   length (mvMatrixStack (run_stack_ops sample_renderer [Push, Push, Pop, Push, Pop])) = 1 \<and>
   mvMatrixStack sample_renderer = [] \<and>
   popMatrix sample_renderer = sample_renderer"
proof -
  have m: "pops_matched [Push, Push, Pop, Push, Pop]"
    by (simp add: pops_matched_def upt_rec)
  have e: "mvMatrixStack sample_renderer = []"
    by (simp add: sample_renderer_def)
  show ?thesis
    using m e stack_depth_after_pushes_and_pops [of "[Push, Push, Pop, Push, Pop]" sample_renderer]
    by simp
qed

subsection \<open>The drawing primitives\<close>

lemmas prim_defs = pushMatrix_def popMatrix_def translate_def scale_def useColorShader_def
  useTextureShader_def drawVertices_def drawIndexedVertices_def emit_def alpha_def

text \<open>
  C2. \<open>triangle\<close>, \<open>rect\<close>, \<open>image\<close> and \<open>box\<close> leave the model-view matrix stack as deep
  as they found it, in every state and whichever passes run.
\<close>

theorem primitives_keep_stack_depth:
  "length (mvMatrixStack (triangle r v0 v1 v2)) = length (mvMatrixStack r) \<and>
   length (mvMatrixStack (rect r x y width height)) = length (mvMatrixStack r) \<and>
   length (mvMatrixStack (image_draw r t x y w h texCoord)) = length (mvMatrixStack r) \<and>
   length (mvMatrixStack (box r width height depth tex)) = length (mvMatrixStack r)"
proof (intro conjI)
  show "length (mvMatrixStack (triangle r v0 v1 v2)) = length (mvMatrixStack r)"
    by (simp add: triangle_def newVertexBuffer_def Let_def prim_defs)
  show "length (mvMatrixStack (rect r x y width height)) = length (mvMatrixStack r)"
    by (simp add: rect_def Let_def prim_defs)
  show "length (mvMatrixStack (image_draw r t x y w h texCoord)) = length (mvMatrixStack r)"
    by (simp add: image_draw_def Let_def prim_defs split: option.split prod.split)
  show "length (mvMatrixStack (box r width height depth tex)) = length (mvMatrixStack r)"
    by (simp add: box_def Let_def prim_defs split: option.split)
qed


lemma rect_issued:
  "issued r (rect r x y width height) =
     (let x' = (if rectModeValue r = ''center'' then x - width / 2 else x);
          y' = (if rectModeValue r = ''center'' then y - height / 2 else y);
          m = mat4_scale (mat4_translate (mvMatrix r) x' y' 0) width height 1
      in (if truthy (alpha r (strokeColor r))
          then color_pass m (projMatrix r) (rectangleWireframe_vertices r) (strokeColor r) @
               [DrawArrays LINE_STRIP 0 (numItems (rectangleWireframe_vertices r))]
          else []) @
         (if truthy (alpha r (fillColor r))
          then color_pass m (projMatrix r) (rectangle_vertices r) (fillColor r) @
               [DrawArrays TRIANGLE_STRIP 0 (numItems (rectangle_vertices r))]
          else []))"
  by (simp add: issued_def rect_def Let_def prim_defs or_zero_def color_pass_def)

lemma box_issued:
  "issued r (box r width height depth tex) =
     (let m = mat4_scale (mvMatrix r) width height depth
      in (if truthy (alpha r (strokeColor r))
          then color_pass m (projMatrix r) (cubeWireframe_vertices r) (strokeColor r) @
               [BindElementBuffer (buf_ref (cubeWireframe_indices r)),
                DrawElements LINES (numItems (cubeWireframe_indices r))]
          else []) @
         (case tex of
            Some t \<Rightarrow>
              (if truthy (alpha r (tintColor r))
               then texture_pass m (projMatrix r) (cube_vertices r) (cube_texCoord r)
                      (tintColor r) t @
                    [BindElementBuffer (buf_ref (cube_indices r)),
                     DrawElements TRIANGLES (numItems (cube_indices r))]
               else [])
          | None \<Rightarrow>
              (if truthy (alpha r (fillColor r))
               then color_pass m (projMatrix r) (cube_vertices r) (fillColor r) @
                    [BindElementBuffer (buf_ref (cube_indices r)),
                     DrawElements TRIANGLES (numItems (cube_indices r))]
               else [])))"
  by (simp add: issued_def box_def Let_def prim_defs or_zero_def color_pass_def texture_pass_def
      split: option.split)

lemma image_issued:
  "issued r (image_draw r t x y width height texCoord) =
     (let (w, h) = (case (width, height) of
                      (Some w, Some h) \<Rightarrow> (w, h)
                    | _ \<Rightarrow> (tex_width t, tex_height t));
          x' = (if imageModeValue r = ''center'' then x - w / 2 else x);
          y' = (if imageModeValue r = ''center'' then y - h / 2 else y);
          m = mat4_scale (mat4_translate (mvMatrix r) x' y' 0) w h 1
      in if truthy (alpha r (tintColor r))
         then texture_pass m (projMatrix r) (rectangle_vertices r)
                (case texCoord of Some b \<Rightarrow> b | None \<Rightarrow> rectangle_texCoord r) (tintColor r) t @
              [DrawArrays TRIANGLE_STRIP 0 (numItems (rectangle_vertices r))]
         else [])"
  by (simp add: issued_def image_draw_def Let_def prim_defs or_zero_def texture_pass_def
      split: option.split prod.split)

lemma draw_calls_color_pass [simp]: "draw_calls (color_pass m p b c @ cs) = draw_calls cs"
  by (simp add: draw_calls_def color_pass_def)

lemma draw_calls_texture_pass [simp]:
  "draw_calls (texture_pass m p b tc c t @ cs) = draw_calls cs"
  by (simp add: draw_calls_def texture_pass_def)

lemma draw_calls_simps [simp]:
  "draw_calls [] = []"
  "draw_calls (DrawArrays md f n # cs) = DrawArrays md f n # draw_calls cs"
  "draw_calls (DrawElements md n # cs) = DrawElements md n # draw_calls cs"
  "draw_calls (BindElementBuffer k # cs) = draw_calls cs"
  by (simp_all add: draw_calls_def)

text \<open>
  C1, as the code has it. A pass runs when the alpha cell of its colour is truthy: a number
  other than 0, \<open>NaN\<close> excluded (0, \<open>NaN\<close> and \<open>undefined\<close> are falsy). \<open>rect\<close> and \<open>box\<close> (with the fill colour when there is no
  texture, with the tint colour when there is one) make no draw call when neither alpha
  is truthy, and when both are they make exactly two, the outline draw with the stroke
  colour first and the body draw second. \<open>image\<close> has no outline pass: it makes no backend
  call at all when the tint alpha is not truthy and exactly one draw call, the textured
  one, when it is, whatever the stroke colour.
\<close>

theorem primitive_draw_calls:
  "(\<not> truthy (alpha r (strokeColor r)) \<and> \<not> truthy (alpha r (fillColor r)) \<longrightarrow>
      issued r (rect r x y width height) = []) \<and>
   (truthy (alpha r (strokeColor r)) \<and> truthy (alpha r (fillColor r)) \<longrightarrow>
      draw_calls (issued r (rect r x y width height)) =
        [DrawArrays LINE_STRIP 0 (numItems (rectangleWireframe_vertices r)),
         DrawArrays TRIANGLE_STRIP 0 (numItems (rectangle_vertices r))]) \<and>
   (\<not> truthy (alpha r (strokeColor r)) \<and> \<not> truthy (alpha r (fillColor r)) \<longrightarrow>
      issued r (box r width height depth None) = []) \<and>
   (truthy (alpha r (strokeColor r)) \<and> truthy (alpha r (fillColor r)) \<longrightarrow>
      draw_calls (issued r (box r width height depth None)) =
        [DrawElements LINES (numItems (cubeWireframe_indices r)),
         DrawElements TRIANGLES (numItems (cube_indices r))]) \<and>
   (\<not> truthy (alpha r (strokeColor r)) \<and> \<not> truthy (alpha r (tintColor r)) \<longrightarrow>
      issued r (box r width height depth (Some t)) = []) \<and>
   (truthy (alpha r (strokeColor r)) \<and> truthy (alpha r (tintColor r)) \<longrightarrow>
      draw_calls (issued r (box r width height depth (Some t))) =
        [DrawElements LINES (numItems (cubeWireframe_indices r)),
         DrawElements TRIANGLES (numItems (cube_indices r))]) \<and>
   (\<not> truthy (alpha r (tintColor r)) \<longrightarrow>
      issued r (image_draw r t x y w h texCoord) = []) \<and>
   (truthy (alpha r (tintColor r)) \<longrightarrow>
      draw_calls (issued r (image_draw r t x y w h texCoord)) =
        [DrawArrays TRIANGLE_STRIP 0 (numItems (rectangle_vertices r))])"
  by (simp add: rect_issued box_issued image_issued Let_def split: prod.split)

lemma alpha_sample_renderer: "alpha sample_renderer c = Num 0"
  by (simp add: alpha_def sample_renderer_def get_index_def)

lemma alpha_opaque_renderer: "alpha opaque_renderer c = Num 1"
  by (simp add: alpha_def opaque_renderer_def sample_renderer_def get_index_def)

theorem primitive_draw_calls_witness:
  "issued sample_renderer (rect sample_renderer 10 10 50 30) = [] \<and>
   draw_calls (issued opaque_renderer (rect opaque_renderer 10 10 50 30)) =
     [DrawArrays LINE_STRIP 0 5, DrawArrays TRIANGLE_STRIP 0 4] \<and>
   issued sample_renderer (box sample_renderer 50 30 4 None) = [] \<and>
   draw_calls (issued opaque_renderer (box opaque_renderer 50 30 4 None)) =
     [DrawElements LINES 24, DrawElements TRIANGLES 36] \<and>
   issued sample_renderer (box sample_renderer 50 30 4 (Some sample_texture)) = [] \<and>
   draw_calls (issued opaque_renderer (box opaque_renderer 50 30 4 (Some sample_texture))) =
     [DrawElements LINES 24, DrawElements TRIANGLES 36] \<and>
   issued sample_renderer (image_draw sample_renderer sample_texture 10 10 None None None) = [] \<and>
   draw_calls (issued opaque_renderer
     (image_draw opaque_renderer sample_texture 10 10 None None None)) =
     [DrawArrays TRIANGLE_STRIP 0 4]"
proof -
  have n: "numItems (rectangleWireframe_vertices opaque_renderer) = 5"
    "numItems (rectangle_vertices opaque_renderer) = 4"
    "numItems (cubeWireframe_indices opaque_renderer) = 24"
    "numItems (cube_indices opaque_renderer) = 36"
    by (simp_all add: opaque_renderer_def sample_renderer_def)
  show ?thesis
    using primitive_draw_calls [of sample_renderer 10 10 50 30 4 sample_texture None None None]
      primitive_draw_calls [of opaque_renderer 10 10 50 30 4 sample_texture None None None]
    by (simp add: alpha_sample_renderer alpha_opaque_renderer n)
qed

text \<open>
  With the stroke and the tint both opaque, \<open>image\<close> makes one draw call, not two, and
  none of it is an outline.
\<close>

theorem image_single_draw_counterexample:
  "alpha opaque_renderer (strokeColor opaque_renderer) = Num 1 \<and>
   alpha opaque_renderer (tintColor opaque_renderer) = Num 1 \<and>
   draw_calls (issued opaque_renderer
     (image_draw opaque_renderer sample_texture 0 0 None None None)) =
     [DrawArrays TRIANGLE_STRIP 0 4]"
  by (simp add: image_issued Let_def alpha_opaque_renderer)
     (simp add: opaque_renderer_def sample_renderer_def)

subsection \<open>The colour cache\<close>

lemma is_rgba_form_rgb: "is_rgba_form hex \<Longrightarrow> is_rgb_form hex"
proof -
  assume h: "is_rgba_form hex"
  then have "take 3 (take 4 hex) = take 3 ''rgba''" by (simp add: is_rgba_form_def)
  then have "take 3 hex = ''rgb''" by simp
  then show ?thesis using h by (simp add: is_rgba_form_def is_rgb_form_def)
qed

lemma hex2rgba_cached: "cache r c = Some a \<Longrightarrow> hex2rgba tn r c = (a, r)"
  by (simp add: hex2rgba_def)

lemma hex2rgba_miss_hex:
  assumes "cache r c = None" "\<not> functional_form c"
  shows "fst (hex2rgba tn r c) = next_addr r + 1"
    and "cache (snd (hex2rgba tn r c)) c = Some (next_addr r)"
  using assms is_rgba_form_rgb [of "strip_hash c"]
  by (auto simp add: hex2rgba_def functional_form_def Let_def alloc_def)

lemma hex2rgba_miss_functional:
  assumes "cache r c = None" "functional_form c"
  shows "fst (hex2rgba tn r c) = next_addr r"
    and "cache (snd (hex2rgba tn r c)) c = Some (next_addr r)"
  using assms
  by (auto simp add: hex2rgba_def functional_form_def Let_def alloc_def)

text \<open>
  Where the claim of C6 does hold: a string in functional notation, and any string that
  is in the cache already, gives the same array on both of two calls.
\<close>

lemma hex2rgba_twice_same:
  assumes "cache r c \<noteq> None \<or> functional_form c"
  shows "fst (hex2rgba tn (snd (hex2rgba tn r c)) c) = fst (hex2rgba tn r c)"
proof (cases "cache r c")
  case None
  then have f: "functional_form c" using assms by simp
  show ?thesis
    using hex2rgba_miss_functional [OF None f, of tn]
    by (simp add: hex2rgba_cached)
next
  case (Some a)
  then show ?thesis by (simp add: hex2rgba_cached)
qed

text \<open>
  C6 fails for a hexadecimal string that is not in the cache yet. The first call stores
  one new array under the string and returns a second new array; the second call returns
  the stored one. The two calls return different arrays.
\<close>

theorem hex2rgba_first_call_returns_copy:
  assumes "cache r color = None" and "\<not> functional_form color"
  shows "fst (hex2rgba tn r color) = next_addr r + 1 \<and>
         fst (hex2rgba tn (snd (hex2rgba tn r color)) color) = next_addr r \<and>
         fst (hex2rgba tn r color) \<noteq> fst (hex2rgba tn (snd (hex2rgba tn r color)) color)"
  using hex2rgba_miss_hex [OF assms, of tn]
  by (simp add: hex2rgba_cached)

lemma not_functional_fff: "\<not> functional_form ''#fff''"
  by (simp add: functional_form_def strip_hash_def charAt_def substring_def is_rgb_form_def)

theorem hex2rgba_first_call_returns_copy_witness:
  "cache sample_renderer ''#fff'' = None \<and> \<not> functional_form ''#fff'' \<and>
   fst (hex2rgba (\<lambda>s. NaN) sample_renderer ''#fff'') = 5 \<and>
   fst (hex2rgba (\<lambda>s. NaN) (snd (hex2rgba (\<lambda>s. NaN) sample_renderer ''#fff'')) ''#fff'') = 4"
proof -
  have c: "cache sample_renderer ''#fff'' = None"
    by (simp add: sample_renderer_def)
  have n: "next_addr sample_renderer = 4"
    by (simp add: sample_renderer_def)
  show ?thesis
    using hex2rgba_first_call_returns_copy [OF c not_functional_fff, of "\<lambda>s. NaN"] c
      not_functional_fff
    by (simp add: n)
qed

subsection \<open>Disabling a colour that is in the cache\<close>

lemma take4_set_index:
  "take 4 (set_index (set_index (set_index (set_index xs 0 v) 1 v) 2 v) 3 v) = [v, v, v, v]"
proof (cases xs)
  case Nil
  then show ?thesis by (simp add: set_index_def)
next
  case (Cons x1 xs1)
  show ?thesis
  proof (cases xs1)
    case Nil
    then show ?thesis using Cons by (simp add: set_index_def)
  next
    case c2: (Cons x2 xs2)
    show ?thesis
    proof (cases xs2)
      case Nil
      then show ?thesis using Cons c2 by (simp add: set_index_def)
    next
      case c3: (Cons x3 xs3)
      show ?thesis
      proof (cases xs3)
        case Nil
        then show ?thesis using Cons c2 c3 by (simp add: set_index_def)
      next
        case c4: (Cons x4 xs4)
        then show ?thesis using Cons c2 c3 by (simp add: set_index_def)
      qed
    qed
  qed
qed

lemma hex2rgba_keeps:
  shows "cache r k = Some a \<Longrightarrow> cache (snd (hex2rgba tn r c)) k = Some a"
    and "a < next_addr r \<Longrightarrow> heap (snd (hex2rgba tn r c)) a = heap r a"
    and "next_addr r \<le> next_addr (snd (hex2rgba tn r c))"
  by (auto simp add: hex2rgba_def Let_def alloc_def split: option.split)

lemma setter_eq:
  "tint tn r c = (snd (hex2rgba tn r c))\<lparr>tintColor := fst (hex2rgba tn r c)\<rparr>"
  "fill tn r c = (snd (hex2rgba tn r c))\<lparr>fillColor := fst (hex2rgba tn r c)\<rparr>"
  "stroke tn r c = (snd (hex2rgba tn r c))\<lparr>strokeColor := fst (hex2rgba tn r c)\<rparr>"
  by (simp_all add: tint_def fill_def stroke_def split_def Let_def)

lemma cached_zero_hex2rgba:
  assumes "cached_zero c a r"
  shows "cached_zero c a (snd (hex2rgba tn r k))"
  using assms hex2rgba_keeps(1) [of r c a tn k] hex2rgba_keeps(2) [of a r tn k]
    hex2rgba_keeps(3) [of r tn k]
  by (simp add: cached_zero_def components_def)

lemma cached_zero_write4:
  assumes "cached_zero c a r" and "b \<noteq> a \<or> v = Num 0"
  shows "cached_zero c a (write4 r b v)"
  using assms take4_set_index [of "heap r a" "Num 0"]
  by (auto simp add: cached_zero_def components_def write4_def)

lemma cached_zero_op:
  assumes "cached_zero c a r" and "op \<noteq> NoTint \<or> tintColor r \<noteq> a"
  shows "cached_zero c a (apply_color_op tn r op)"
proof -
  have "cached_zero c a (snd (hex2rgba tn r k))" for k
    using assms(1) by (rule cached_zero_hex2rgba)
  then show ?thesis
    using assms cached_zero_write4 [OF assms(1), of "tintColor r" "Num 1"]
      cached_zero_write4 [OF assms(1), of "fillColor r" "Num 0"]
      cached_zero_write4 [OF assms(1), of "strokeColor r" "Num 0"]
    by (cases op)
      (simp_all add: setter_eq cached_zero_def components_def noTint_def noFill_def noStroke_def)
qed

lemma cached_zero_run:
  "cached_zero c a r \<Longrightarrow> noTint_spares tn a r ops \<Longrightarrow> cached_zero c a (run_color_ops tn r ops)"
  unfolding run_color_ops_def
  by (induction ops arbitrary: r) (simp_all add: cached_zero_op)

lemma cached_zero_setters:
  assumes "cached_zero c a r"
  shows "tintColor (tint tn r c) = a \<and> components (tint tn r c) a = [Num 0, Num 0, Num 0, Num 0]"
    and "fillColor (fill tn r c) = a \<and> components (fill tn r c) a = [Num 0, Num 0, Num 0, Num 0]"
    and "strokeColor (stroke tn r c) = a \<and>
         components (stroke tn r c) a = [Num 0, Num 0, Num 0, Num 0]"
  using assms
  by (simp_all add: setter_eq cached_zero_def hex2rgba_cached components_def)

lemma noFill_fill_cached:
  assumes "cache r c = Some a" "a < next_addr r"
  shows "cached_zero c a (noFill (fill tn r c))"
  using assms take4_set_index [of "heap r a" "Num 0"]
  by (simp add: cached_zero_def components_def noFill_def write4_def setter_eq hex2rgba_cached)

lemma alpha_components:
  "components r a = [Num 0, Num 0, Num 0, Num 0] \<Longrightarrow> alpha r a = Num 0"
proof -
  assume h: "components r a = [Num 0, Num 0, Num 0, Num 0]"
  then have "length (take 4 (heap r a)) = 4" by (simp add: components_def)
  then have l: "3 < length (heap r a)" by simp
  have "take 4 (heap r a) ! 3 = Num 0" using h by (simp add: components_def)
  then have "heap r a ! 3 = Num 0" by simp
  then show ?thesis using l by (simp add: alpha_def get_index_def)
qed

text \<open>
  C9, as the code has it. Let the colour string \<open>c\<close> be in the cache, at the address \<open>a\<close> of
  an array allocated earlier. \<open>fill(c); noFill()\<close> writes zero into the first four cells of
  that very array. After any further \<open>tint\<close>, \<open>fill\<close>, \<open>stroke\<close>, \<open>noTint\<close>, \<open>noFill\<close> and
  \<open>noStroke\<close> calls (with any strings) among which no \<open>noTint\<close> is called while the tint slot
  holds that array, each of \<open>fill(c)\<close>, \<open>stroke(c)\<close> and \<open>tint(c)\<close> stores the address \<open>a\<close>,
  whose four components are all 0, so the alpha a pass reads is 0.
\<close>

theorem noFill_zeroes_cached_color:
  assumes "cache r c = Some a" and "a < next_addr r"
    and "noTint_spares tn a (noFill (fill tn r c)) ops"
  shows "heap (noFill (fill tn r c)) a =
           set_index (set_index (set_index (set_index (heap r a) 0 (Num 0)) 1 (Num 0)) 2 (Num 0))
             3 (Num 0) \<and>
         components (noFill (fill tn r c)) a = [Num 0, Num 0, Num 0, Num 0] \<and>
         (let r' = run_color_ops tn (noFill (fill tn r c)) ops
          in fillColor (fill tn r' c) = a \<and>
             components (fill tn r' c) (fillColor (fill tn r' c)) = [Num 0, Num 0, Num 0, Num 0] \<and>
             alpha (fill tn r' c) (fillColor (fill tn r' c)) = Num 0 \<and>
             strokeColor (stroke tn r' c) = a \<and>
             components (stroke tn r' c) (strokeColor (stroke tn r' c)) =
               [Num 0, Num 0, Num 0, Num 0] \<and>
             alpha (stroke tn r' c) (strokeColor (stroke tn r' c)) = Num 0 \<and>
             tintColor (tint tn r' c) = a \<and>
             components (tint tn r' c) (tintColor (tint tn r' c)) = [Num 0, Num 0, Num 0, Num 0] \<and>
             alpha (tint tn r' c) (tintColor (tint tn r' c)) = Num 0)"
proof -
  have z: "cached_zero c a (noFill (fill tn r c))"
    using assms(1,2) by (rule noFill_fill_cached)
  have h: "heap (noFill (fill tn r c)) a =
           set_index (set_index (set_index (set_index (heap r a) 0 (Num 0)) 1 (Num 0)) 2 (Num 0))
             3 (Num 0)"
    using assms(1,2) by (simp add: noFill_def write4_def setter_eq hex2rgba_cached)
  have z': "cached_zero c a (run_color_ops tn (noFill (fill tn r c)) ops)"
    using z assms(3) by (rule cached_zero_run)
  show ?thesis
    using h z cached_zero_setters [OF z', of tn]
    by (simp add: Let_def alpha_components) (simp add: cached_zero_def)
qed

lemma tintColor_noFill_fill:
  "cache r c = Some a \<Longrightarrow> tintColor (noFill (fill tn r c)) = tintColor r"
  by (simp add: noFill_def write4_def setter_eq hex2rgba_cached)

theorem noFill_zeroes_cached_color_witness:
  "cache cached_renderer ''#fff'' = Some 0 \<and> 0 < next_addr cached_renderer \<and>
   components cached_renderer 0 = [Num 1, Num 1, Num 1, Num 1] \<and>
   components (noFill (fill (\<lambda>s. NaN) cached_renderer ''#fff'')) 0 =
     [Num 0, Num 0, Num 0, Num 0] \<and>
   strokeColor (stroke (\<lambda>s. NaN)
     (run_color_ops (\<lambda>s. NaN) (noFill (fill (\<lambda>s. NaN) cached_renderer ''#fff''))
        [NoTint, Tint ''#000'', NoFill, Fill ''rgb(255, 0, 0)'', NoStroke]) ''#fff'') = 0"
proof -
  have c: "cache cached_renderer ''#fff'' = Some 0"
    by (simp add: cached_renderer_def)
  have n: "0 < next_addr cached_renderer"
    by (simp add: cached_renderer_def opaque_renderer_def sample_renderer_def)
  have k: "components cached_renderer 0 = [Num 1, Num 1, Num 1, Num 1]"
    by (simp add: components_def cached_renderer_def opaque_renderer_def sample_renderer_def)
  have t: "tintColor cached_renderer \<noteq> 0"
    by (simp add: cached_renderer_def opaque_renderer_def sample_renderer_def)
  have s: "noTint_spares (\<lambda>s. NaN) 0 (noFill (fill (\<lambda>s. NaN) cached_renderer ''#fff''))
             [NoTint, Tint ''#000'', NoFill, Fill ''rgb(255, 0, 0)'', NoStroke]"
    using t by (simp add: tintColor_noFill_fill [OF c])
  show ?thesis
    using noFill_zeroes_cached_color [OF c n s] c n k
    by (simp add: Let_def)
qed

text \<open>
  \<open>noTint\<close> writes 1 into the four cells of the array in the tint slot. After
  \<open>fill(c); noFill(); tint(c); noTint()\<close> the cached array of \<open>c\<close> is \<open>[1, 1, 1, 1]\<close>, and that
  is what a later \<open>fill(c)\<close> stores.
\<close>

theorem noTint_restores_cached_color_counterexample:
  "cache cached_renderer ''#fff'' = Some 0 \<and>
   components (noFill (fill (\<lambda>s. NaN) cached_renderer ''#fff'')) 0 =
     [Num 0, Num 0, Num 0, Num 0] \<and>
   components
     (fill (\<lambda>s. NaN)
        (run_color_ops (\<lambda>s. NaN) (noFill (fill (\<lambda>s. NaN) cached_renderer ''#fff''))
           [Tint ''#fff'', NoTint]) ''#fff'')
     (fillColor
        (fill (\<lambda>s. NaN)
           (run_color_ops (\<lambda>s. NaN) (noFill (fill (\<lambda>s. NaN) cached_renderer ''#fff''))
              [Tint ''#fff'', NoTint]) ''#fff'')) =
     [Num 1, Num 1, Num 1, Num 1]"
proof -
  have c: "cache cached_renderer ''#fff'' = Some 0"
    by (simp add: cached_renderer_def)
  define r1 where "r1 = noFill (fill (\<lambda>s. NaN) cached_renderer ''#fff'')"
  have c1: "cache r1 ''#fff'' = Some 0"
    using c by (simp add: r1_def noFill_def write4_def setter_eq hex2rgba_cached)
  have z: "components r1 0 = [Num 0, Num 0, Num 0, Num 0]"
    using c take4_set_index [of "heap cached_renderer 0" "Num 0"]
    by (simp add: r1_def components_def noFill_def write4_def setter_eq hex2rgba_cached)
  define r2 where "r2 = run_color_ops (\<lambda>s. NaN) r1 [Tint ''#fff'', NoTint]"
  have r2: "r2 = write4 (r1\<lparr>tintColor := 0\<rparr>) 0 (Num 1)"
    using c1 by (simp add: r2_def run_color_ops_def setter_eq hex2rgba_cached noTint_def)
  have c2: "cache r2 ''#fff'' = Some 0"
    using c1 by (simp add: r2 write4_def)
  have k: "components r2 0 = [Num 1, Num 1, Num 1, Num 1]"
    using take4_set_index [of "heap r1 0" "Num 1"]
    by (simp add: r2 components_def write4_def)
  have "components (fill (\<lambda>s. NaN) r2 ''#fff'') (fillColor (fill (\<lambda>s. NaN) r2 ''#fff'')) =
          [Num 1, Num 1, Num 1, Num 1]"
    using c2 k by (simp add: setter_eq hex2rgba_cached components_def)
  then show ?thesis using c z by (simp add: r1_def r2_def)
qed

subsection \<open>nextPowerOfTwo\<close>

lemma spread_unrolled:
  "spread 1 x =
     Some (spread_step 16 (spread_step 8 (spread_step 4 (spread_step 2 (spread_step 1 x)))))"
  by (simp add: spread.simps spread_step_def)

lemma nextPowerOfTwo_unrolled:
  "nextPowerOfTwo x =
     Some (sint (spread_step 16 (spread_step 8 (spread_step 4 (spread_step 2 (spread_step 1
       (word_of_int (x - 1))))))) + 1)"
  unfolding nextPowerOfTwo_def spread_unrolled by simp

lemma window_start: "window 1 x x"
  by (simp add: window_def)

lemma window_top:
  assumes "\<not> bit x 31" "window w x y"
  shows "\<not> bit y 31"
proof
  assume "bit y 31"
  then obtain d where d: "d < w" "bit x (31 + d)"
    using assms(2) unfolding window_def by blast
  have "31 + d < 32" using d(2) bit_imp_le_length [of x "31 + d"] by simp
  then have "d = 0" by simp
  then show False using d(2) assms(1) by simp
qed

lemma bit_spread_step:
  assumes "\<not> bit y 31"
  shows "bit (spread_step i y) n \<longleftrightarrow> bit y n \<or> bit y (n + i)"
proof -
  have sd: "bit (signed_drop_bit i y) n \<longleftrightarrow>
              bit y (if LENGTH(32) - i \<le> n \<and> n < LENGTH(32) then LENGTH(32) - 1 else i + n)"
    by (rule bit_signed_drop_bit_iff)
  have "bit (signed_drop_bit i y) n \<longleftrightarrow> bit y (n + i)"
  proof (cases "LENGTH(32) - i \<le> n \<and> n < LENGTH(32)")
    case True
    then have "LENGTH(32) \<le> n + i" by linarith
    then have "\<not> bit y (n + i)" using bit_imp_le_length [of y "n + i"] by linarith
    moreover have "\<not> bit y (LENGTH(32) - 1)" using assms by simp
    ultimately show ?thesis using sd True by presburger
  next
    case False
    then show ?thesis using sd by (simp only: if_False add.commute)
  qed
  then show ?thesis by (simp add: spread_step_def bit_or_iff)
qed

lemma window_step:
  assumes "\<not> bit x 31" "window w x y" "0 < w"
  shows "window (2 * w) x (spread_step w y)"
proof -
  have t: "\<not> bit y 31" using assms(1,2) by (rule window_top)
  show ?thesis
    unfolding window_def
  proof
    fix n
    have "bit (spread_step w y) n \<longleftrightarrow> bit y n \<or> bit y (n + w)"
      using t by (rule bit_spread_step)
    also have "\<dots> \<longleftrightarrow> (\<exists>d<w. bit x (n + d)) \<or> (\<exists>d<w. bit x (n + w + d))"
      using assms(2) unfolding window_def by simp
    also have "\<dots> \<longleftrightarrow> (\<exists>d<2 * w. bit x (n + d))"
    proof
      assume "(\<exists>d<w. bit x (n + d)) \<or> (\<exists>d<w. bit x (n + w + d))"
      then show "\<exists>d<2 * w. bit x (n + d)"
      proof
        assume "\<exists>d<w. bit x (n + d)"
        then obtain d where "d < w" "bit x (n + d)" by blast
        then show ?thesis by (intro exI [of _ d]) simp
      next
        assume "\<exists>d<w. bit x (n + w + d)"
        then obtain d where "d < w" "bit x (n + w + d)" by blast
        then show ?thesis by (intro exI [of _ "w + d"]) (simp add: add.assoc)
      qed
    next
      assume "\<exists>d<2 * w. bit x (n + d)"
      then obtain d where d: "d < 2 * w" "bit x (n + d)" by blast
      show "(\<exists>d<w. bit x (n + d)) \<or> (\<exists>d<w. bit x (n + w + d))"
      proof (cases "d < w")
        case True
        then show ?thesis using d by blast
      next
        case False
        then have "d - w < w" "n + w + (d - w) = n + d" using d(1) by simp_all
        then show ?thesis using d(2) by metis
      qed
    qed
    finally show "bit (spread_step w y) n \<longleftrightarrow> (\<exists>d<2 * w. bit x (n + d))" .
  qed
qed


lemma window_final:
  assumes "\<not> bit x 31"
  shows "window 32 x (spread_step 16 (spread_step 8 (spread_step 4 (spread_step 2 (spread_step 1 x)))))"
proof -
  have w1: "window 1 x x" by (rule window_start)
  have w2: "window 2 x (spread_step 1 x)"
    using window_step [OF assms w1] by simp
  have w4: "window 4 x (spread_step 2 (spread_step 1 x))"
    using window_step [OF assms w2] by simp
  have w8: "window 8 x (spread_step 4 (spread_step 2 (spread_step 1 x)))"
    using window_step [OF assms w4] by simp
  have w16: "window 16 x (spread_step 8 (spread_step 4 (spread_step 2 (spread_step 1 x))))"
    using window_step [OF assms w8] by simp
  show ?thesis
    using window_step [OF assms w16] by simp
qed

lemma window_32_mask:
  fixes y :: int
  assumes y: "0 \<le> y" "y < 2 ^ k" and k: "k \<le> 31" and least: "k = 0 \<or> 2 ^ (k - 1) \<le> y"
    and w: "window 32 (word_of_int y :: 32 word) s"
  shows "s = mask k"
proof (rule bit_word_eqI)
  fix n assume n: "n < LENGTH(32)"
  have "bit s n \<longleftrightarrow> (\<exists>d<32. bit (word_of_int y :: 32 word) (n + d))"
    using w unfolding window_def by blast
  also have "\<dots> \<longleftrightarrow> n < k"
  proof
    assume "\<exists>d<32. bit (word_of_int y :: 32 word) (n + d)"
    then obtain d where d: "bit (word_of_int y :: 32 word) (n + d)" by blast
    then have b: "bit y (n + d)" by (simp add: bit_word_of_int_iff)
    have "\<not> y < 2 ^ (n + d)"
    proof
      assume "y < 2 ^ (n + d)"
      then have "y div 2 ^ (n + d) = 0" using y(1) by simp
      then show False using b by (simp add: bit_iff_odd)
    qed
    then have "(2::int) ^ (n + d) < 2 ^ k" using y(2) by linarith
    then have "n + d < k" by simp
    then show "n < k" by simp
  next
    assume nk: "n < k"
    then have k0: "k \<noteq> 0" by simp
    then have lo: "2 ^ (k - 1) \<le> y" using least by simp
    have "y < 2 * 2 ^ (k - 1)" using y(2) k0 by (cases k) simp_all
    then have "(y - 2 ^ (k - 1)) div 2 ^ (k - 1) = 0" using lo by simp
    then have "y div 2 ^ (k - 1) = 1"
      using div_pos_geq [of "2 ^ (k - 1)" y] lo by simp
    then have b: "bit y (k - 1)" by (simp add: bit_iff_odd)
    have "k - 1 < 32" using k by simp
    then have "bit (word_of_int y :: 32 word) (k - 1)" using b by (simp add: bit_word_of_int_iff)
    moreover have "k - 1 = n + (k - 1 - n)" "k - 1 - n < 32" using nk k by simp_all
    ultimately show "\<exists>d<32. bit (word_of_int y :: 32 word) (n + d)" by metis
  qed
  also have "\<dots> \<longleftrightarrow> bit (mask k :: 32 word) n"
    using n by (simp add: bit_mask_iff)
  finally show "bit s n \<longleftrightarrow> bit (mask k :: 32 word) n" .
qed


lemma sint_mask_32:
  assumes "k \<le> 31"
  shows "sint (mask k :: 32 word) = 2 ^ k - 1"
proof -
  have "uint (mask k :: 32 word) = (mask (min LENGTH(32) k) :: int)"
    by (rule uint_mask_eq)
  also have "min LENGTH(32) k = k" using assms by simp
  finally have u: "uint (mask k :: 32 word) = 2 ^ k - 1"
    by (simp only: mask_eq_exp_minus_1)
  have "(2::int) ^ k \<le> 2 ^ 31" using assms by (intro power_increasing) simp_all
  moreover have "(0::int) < 2 ^ k" by simp
  ultimately have "signed_take_bit 31 ((2::int) ^ k - 1) = 2 ^ k - 1"
    by (intro signed_take_bit_int_eq_self) linarith+
  then show ?thesis using u by (simp add: sint_uint)
qed

text \<open>
  C8. For an integer \<open>x\<close> with \<open>1 \<le> x \<le> 2\<^sup>3\<^sup>1\<close>, \<open>nextPowerOfTwo\<close> returns, and what it
  returns is a power of two that is at least \<open>x\<close> and at most every power of two that is at
  least \<open>x\<close>.
\<close>

theorem nextPowerOfTwo_smallest:
  assumes "1 \<le> x" and "x \<le> 2 ^ 31"
  shows "\<exists>k. nextPowerOfTwo x = Some (2 ^ k) \<and> x \<le> 2 ^ k \<and> (\<forall>j. x \<le> 2 ^ j \<longrightarrow> (2::int) ^ k \<le> 2 ^ j)"
proof -
  define y where "y = x - 1"
  define k where "k = (LEAST k. y < 2 ^ k)"
  have y0: "0 \<le> y" and y31: "y < 2 ^ 31" using assms by (simp_all add: y_def)
  have yk: "y < 2 ^ k" unfolding k_def using y31 by (rule LeastI)
  have k31: "k \<le> 31" unfolding k_def using y31 by (rule Least_le)
  have least: "k = 0 \<or> 2 ^ (k - 1) \<le> y"
  proof (cases "k = 0")
    case True
    then show ?thesis by simp
  next
    case False
    then have "k - 1 < (LEAST k. y < 2 ^ k)" by (simp add: k_def)
    then have "\<not> y < 2 ^ (k - 1)" by (rule not_less_Least)
    then show ?thesis by simp
  qed
  have "y div 2 ^ 31 = 0" using y0 y31 by simp
  then have "\<not> bit y 31" by (simp add: bit_iff_odd)
  then have top: "\<not> bit (word_of_int y :: 32 word) 31" by (simp add: bit_word_of_int_iff)
  have "spread_step 16 (spread_step 8 (spread_step 4 (spread_step 2 (spread_step 1
          (word_of_int y :: 32 word))))) = mask k"
    using y0 yk k31 least window_final [OF top] by (rule window_32_mask)
  then have r: "nextPowerOfTwo x = Some (2 ^ k)"
    using sint_mask_32 [OF k31] by (simp add: nextPowerOfTwo_unrolled y_def)
  have up: "x \<le> 2 ^ k" using yk by (simp add: y_def)
  have "(2::int) ^ k \<le> 2 ^ j" if "x \<le> 2 ^ j" for j
  proof -
    have "y < 2 ^ j" using that by (simp add: y_def)
    then have "k \<le> j" unfolding k_def by (rule Least_le)
    then show ?thesis by (intro power_increasing) simp_all
  qed
  then show ?thesis using r up by blast
qed

theorem nextPowerOfTwo_smallest_witness:
  "(1::int) \<le> 5 \<and> (5::int) \<le> 2 ^ 31 \<and>
   (\<exists>k. nextPowerOfTwo 5 = Some (2 ^ k) \<and> 5 \<le> (2::int) ^ k \<and>
        (\<forall>j. 5 \<le> (2::int) ^ j \<longrightarrow> (2::int) ^ k \<le> 2 ^ j)) \<and>
   nextPowerOfTwo 5 = Some 8"
proof -
  have e: "nextPowerOfTwo 5 = Some 8"
    by (simp add: nextPowerOfTwo_unrolled spread_step_def)
  show ?thesis
    using nextPowerOfTwo_smallest [of 5] e by simp
qed


text \<open>Outside that range the result is not a power of two.\<close>

lemma nextPowerOfTwo_outside:
  "nextPowerOfTwo 0 = Some 0" "nextPowerOfTwo (2 ^ 31 + 1) = Some 0"
  by (simp_all add: nextPowerOfTwo_unrolled spread_step_def)

subsection \<open>Arrays written in place\<close>

lemma take3_put3: "take 3 (put3 xs [a, b, c]) = [a, b, c]"
proof (cases xs)
  case Nil
  then show ?thesis by (simp add: put3_def put_def)
next
  case (Cons x1 xs1)
  show ?thesis
  proof (cases xs1)
    case Nil
    then show ?thesis using Cons by (simp add: put3_def put_def)
  next
    case c2: (Cons x2 xs2)
    show ?thesis
    proof (cases xs2)
      case Nil
      then show ?thesis using Cons c2 by (simp add: put3_def put_def)
    next
      case c3: (Cons x3 xs3)
      then show ?thesis using Cons c2 by (simp add: put3_def put_def)
    qed
  qed
qed

lemma nth_take3: "i < 3 \<Longrightarrow> take 3 xs = [a, b, c] \<Longrightarrow> xs ! i = [a, b, c] ! i"
  by (metis nth_take)

lemma put3_nth:
  "put3 xs [a, b, c] ! 0 = a" "put3 xs [a, b, c] ! 1 = b" "put3 xs [a, b, c] ! 2 = c"
  using nth_take3 [OF _ take3_put3, of 0 xs a b c] nth_take3 [OF _ take3_put3, of 1 xs a b c]
    nth_take3 [OF _ take3_put3, of 2 xs a b c]
  by simp_all

lemma length3_conv: "length v = 3 \<longleftrightarrow> (\<exists>a b c. v = [a, b, c])"
  by (auto simp: length_Suc_conv numeral_3_eq_3)

lemma put3_nth_gen:
  assumes "length v = 3" "i < 3"
  shows "put3 xs v ! i = v ! i"
proof -
  obtain a b c where v: "v = [a, b, c]"
    using assms(1) unfolding length3_conv by blast
  have "i = 0 \<or> i = 1 \<or> i = 2" using assms(2) by auto
  then show ?thesis using put3_nth [of xs a b c] v by auto
qed

lemma vec3_lengths [simp]:
  "length (vec3_subtract a b) = 3" "length (vec3_normalize a) = 3"
  by (simp_all add: vec3_subtract_def vec3_normalize_def Let_def)

lemma vec3_of_put3 [simp]:
  assumes "length v = 3"
  shows "vec3_subtract (put3 xs v) b = vec3_subtract v b"
    and "vec3_subtract b (put3 xs v) = vec3_subtract b v"
    and "vec3_normalize (put3 xs v) = vec3_normalize v"
  using put3_nth_gen [OF assms, of 0 xs] put3_nth_gen [OF assms, of 1 xs]
    put3_nth_gen [OF assms, of 2 xs]
  by (simp_all add: vec3_subtract_def vec3_normalize_def Let_def)

lemma take3_put3_gen: "length v = 3 \<Longrightarrow> take 3 (put3 xs v) = v"
  unfolding length3_conv using take3_put3 by blast


subsection \<open>intersectRayTriangle\<close>

lemma content_store_at:
  "content (store_at A m a k v) b =
     (if b = a then assign A (typed m a) (content m a) k v else content m b)"
  by (simp add: store_at_def)

lemma typed_store_at [simp]: "typed (store_at A m a k v) = typed m"
  by (simp add: store_at_def)

lemma unused_store_at [simp]: "unused (store_at A m a k v) = unused m"
  by (simp add: store_at_def)

lemma cell_assign_other: "j \<noteq> k \<Longrightarrow> cell A (assign A ty xs k v) j = cell A xs j"
  by (auto simp add: cell_def assign_def nth_append)

lemma scale_in_place_content:
  "content (vec3_scale_in_place A m d r) =
     (content m)(d := scaled_direction A (typed m d) (content m d) r)"
  by (rule ext)
    (simp add: vec3_scale_in_place_def Let_def content_store_at load_def cell_assign_other
      scaled_direction_def assign3_def)

lemma scale_in_place_frame [simp]:
  "typed (vec3_scale_in_place A m d r) = typed m"
  "unused (vec3_scale_in_place A m d r) = unused m"
  by (simp_all add: vec3_scale_in_place_def Let_def)

lemma add_to_content:
  "content (vec3_add_to A m vec vec2 dest) =
     (content m)(dest := assign3 A (typed m dest) (content m dest)
                           (vec3_sum A (content m vec) (content m vec2)))"
  by (rule ext)
    (simp add: vec3_add_to_def Let_def content_store_at load_def cell_assign_other
      vec3_sum_def assign3_def)

lemma add_to_frame [simp]:
  "typed (vec3_add_to A m vec vec2 dest) = typed m"
  "unused (vec3_add_to A m vec vec2 dest) = unused m"
  by (simp_all add: vec3_add_to_def Let_def)

lemma assign3_plain: "assign3 A False xs [a, b, c] = [a, b, c] @ drop 3 xs"
proof (cases xs)
  case Nil
  then show ?thesis by (simp add: assign3_def assign_def)
next
  case (Cons x1 xs1)
  show ?thesis
  proof (cases xs1)
    case Nil
    then show ?thesis using Cons by (simp add: assign3_def assign_def)
  next
    case c2: (Cons x2 xs2)
    show ?thesis
    proof (cases xs2)
      case Nil
      then show ?thesis using Cons c2 by (simp add: assign3_def assign_def)
    next
      case c3: (Cons x3 xs3)
      then show ?thesis using Cons c2 by (simp add: assign3_def assign_def)
    qed
  qed
qed

lemma assign3_typed:
  "assign3 A True xs [a, b, c] =
     take (length xs) [n_fround A a, n_fround A b, n_fround A c] @ drop 3 xs"
proof (cases xs)
  case Nil
  then show ?thesis by (simp add: assign3_def assign_def)
next
  case (Cons x1 xs1)
  show ?thesis
  proof (cases xs1)
    case Nil
    then show ?thesis using Cons by (simp add: assign3_def assign_def)
  next
    case c2: (Cons x2 xs2)
    show ?thesis
    proof (cases xs2)
      case Nil
      then show ?thesis using Cons c2 by (simp add: assign3_def assign_def)
    next
      case c3: (Cons x3 xs3)
      then show ?thesis using Cons c2 by (simp add: assign3_def assign_def)
    qed
  qed
qed

lemma assign3_twice:
  "assign3 A ty (assign3 A ty xs [a, b, c]) [d, e, f] = assign3 A ty xs [d, e, f]"
proof (cases ty)
  case True
  then show ?thesis by (simp add: assign3_typed min_def)
next
  case False
  then show ?thesis by (simp add: assign3_plain)
qed

lemma intersect_unfold:
  fixes A :: "'n arith" and m :: "'n memory" and v0 v1 v2 i :: addr and ray :: ray
  defines "u \<equiv> vec3_subtract_to A (content m v1) (content m v0)"
    and "v \<equiv> vec3_subtract_to A (content m v2) (content m v0)"
  defines "n \<equiv> vec3_cross_to A u v"
  defines "a \<equiv> n_neg A (vec3_dot A n
                 (vec3_subtract_to A (content m (position ray)) (content m v0)))"
    and "b \<equiv> vec3_dot A n (content m (direction ray))"
  defines "r \<equiv> n_div A a b"
  defines "m1 \<equiv> vec3_scale_in_place A m (direction ray) r"
  defines "m2 \<equiv> vec3_add_to A m1 (position ray) (direction ray) i"
  defines "w \<equiv> vec3_subtract_to A (content m2 i) (content m2 v0)"
  defines "D \<equiv> n_sub A (n_mul A (vec3_dot A u v) (vec3_dot A u v))
                  (n_mul A (vec3_dot A u u) (vec3_dot A v v))"
  defines "s \<equiv> n_div A (n_sub A (n_mul A (vec3_dot A u v) (vec3_dot A w v))
                  (n_mul A (vec3_dot A v v) (vec3_dot A w u))) D"
    and "t \<equiv> n_div A (n_sub A (n_mul A (vec3_dot A u v) (vec3_dot A w u))
                  (n_mul A (vec3_dot A u u) (vec3_dot A w v))) D"
  shows "intersectRayTriangle A m v0 v1 v2 ray (Some i) =
     (if n_is_zero A (n ! 0) \<and> n_is_zero A (n ! 1) \<and> n_is_zero A (n ! 2) then (- 1, m)
      else if n_less A (n_abs A b) (n_eps A) then (if n_is_zero A a then (2, m) else (0, m))
      else if n_less A r (n_zero A) then (0, m)
      else if n_less A s (n_zero A) \<or> n_less A (n_one A) s then (0, m2)
      else if n_less A t (n_zero A) \<or> n_less A (n_one A) (n_add A s t) then (0, m2)
      else (1, m2))"
  unfolding intersectRayTriangle_def u_def v_def n_def a_def b_def r_def m1_def m2_def w_def
    D_def s_def t_def
  by (simp only: Let_def option.case prod.case)

lemma intersect_None:
  "intersectRayTriangle A m v0 v1 v2 ray None =
     intersectRayTriangle A (snd (vec3_create A m)) v0 v1 v2 ray (Some (unused m))"
  by (simp add: intersectRayTriangle_def vec3_create_def)

lemma vec3_create_frame:
  "content (snd (vec3_create A m)) (unused m) = [n_zero A, n_zero A, n_zero A]"
  "typed (snd (vec3_create A m)) (unused m) = True"
  "a \<noteq> unused m \<Longrightarrow> content (snd (vec3_create A m)) a = content m a"
  "a \<noteq> unused m \<Longrightarrow> typed (snd (vec3_create A m)) a = typed m a"
  by (simp_all add: vec3_create_def)

text \<open>What the function returns and leaves behind when a destination is supplied.\<close>

lemma intersect_supplied:
  fixes A :: "'n arith" and m :: "'n memory" and v0 v1 v2 i :: addr and ray :: ray
  defines "p0 \<equiv> content m v0" and "p1 \<equiv> content m v1" and "p2 \<equiv> content m v2"
    and "pos \<equiv> content m (position ray)" and "dir \<equiv> content m (direction ray)"
  defines "r \<equiv> plane_r A p0 p1 p2 pos dir"
  defines "res \<equiv> intersectRayTriangle A m v0 v1 v2 ray (Some i)"
  shows code: "direction ray \<noteq> position ray \<Longrightarrow> direction ray \<noteq> v0 \<Longrightarrow> i \<noteq> v0 \<Longrightarrow>
           fst res = intersection_code A p0 p1 p2 pos (typed m (direction ray)) dir
                       (typed m i) (content m i)"
    and late: "direction ray \<noteq> position ray \<Longrightarrow> \<not> normal_is_zero A p0 p1 p2 \<Longrightarrow>
           \<not> n_less A (n_abs A (plane_b A p0 p1 p2 dir)) (n_eps A) \<Longrightarrow>
           \<not> n_less A r (n_zero A) \<Longrightarrow>
           content (snd res) i =
             plane_point A pos (typed m (direction ray)) dir r (typed m i) (content m i) \<and>
           (i \<noteq> direction ray \<longrightarrow>
              content (snd res) (direction ray) =
                scaled_direction A (typed m (direction ray)) dir r) \<and>
           (\<forall>a. a \<noteq> i \<and> a \<noteq> direction ray \<longrightarrow> content (snd res) a = content m a) \<and>
           typed (snd res) = typed m \<and> unused (snd res) = unused m"
    and early: "normal_is_zero A p0 p1 p2 \<or>
           n_less A (n_abs A (plane_b A p0 p1 p2 dir)) (n_eps A) \<or> n_less A r (n_zero A) \<Longrightarrow>
           snd res = m"
proof -
  define m1 where "m1 = vec3_scale_in_place A m (direction ray) r"
  define m2 where "m2 = vec3_add_to A m1 (position ray) (direction ray) i"
  define sd where "sd = scaled_direction A (typed m (direction ray)) dir r"
  define pt where "pt = plane_point A pos (typed m (direction ray)) dir r (typed m i) (content m i)"
  have c1: "content m1 = (content m)(direction ray := sd)"
    by (simp add: m1_def sd_def dir_def scale_in_place_content)
  have sd3: "sd = assign3 A (typed m (direction ray)) dir
      [n_mul A (cell A dir 0) r, n_mul A (cell A dir 1) r, n_mul A (cell A dir 2) r]"
    by (simp add: sd_def scaled_direction_def)
  have tm1: "typed m1 = typed m" by (simp add: m1_def)
  have cd1: "content m1 (direction ray) = sd" by (simp add: c1)
  have c2: "content m2 =
      (content m1)(i := assign3 A (typed m i) (content m1 i)
                          (vec3_sum A (content m1 (position ray)) sd))"
    by (simp add: m2_def add_to_content tm1 cd1)
  have tw: "assign3 A ty sd (vec3_sum A pos sd) = assign3 A ty dir (vec3_sum A pos sd)"
    if "ty = typed m (direction ray)" for ty
  proof -
    obtain a b c where abc: "vec3_sum A pos sd = [a, b, c]" by (simp add: vec3_sum_def)
    show ?thesis unfolding abc that by (simp only: sd3 assign3_twice)
  qed
  have ci: "content m2 i = pt" if apart: "direction ray \<noteq> position ray"
  proof -
    have cp: "content m1 (position ray) = pos" using apart by (simp add: c1 pos_def)
    show ?thesis
    proof (cases "i = direction ray")
      case True
      have "content m2 i = assign3 A (typed m (direction ray)) sd (vec3_sum A pos sd)"
        using True by (simp add: c2 cd1 cp)
      also have "\<dots> = assign3 A (typed m (direction ray)) dir (vec3_sum A pos sd)"
        by (rule tw) simp
      also have "\<dots> = pt"
        unfolding pt_def plane_point_def sd_def True dir_def by simp
      finally show ?thesis .
    next
      case False
      then have "content m1 i = content m i" by (simp add: c1)
      then show ?thesis
        by (simp add: c2 cp pt_def plane_point_def sd_def [symmetric])
    qed
  qed
  have cd: "content m2 (direction ray) = sd" if "i \<noteq> direction ray"
    using that by (simp add: c2 c1)
  have co: "content m2 a = content m a" if "a \<noteq> i" "a \<noteq> direction ray" for a
    using that by (simp add: c2 c1)
  have fr: "typed m2 = typed m" "unused m2 = unused m"
    by (simp_all add: m2_def m1_def)
  note unf = intersect_unfold [of A m v0 v1 v2 ray i,
      folded p0_def p1_def p2_def pos_def dir_def, folded triangle_normal_def,
      folded plane_a_def plane_b_def, folded plane_r_def, folded r_def, folded m1_def,
      folded m2_def]
  have nz: "normal_is_zero A p0 p1 p2 \<longleftrightarrow>
      n_is_zero A (triangle_normal A p0 p1 p2 ! 0) \<and> n_is_zero A (triangle_normal A p0 p1 p2 ! 1) \<and>
      n_is_zero A (triangle_normal A p0 p1 p2 ! 2)"
    by (simp add: normal_is_zero_def)
  show "fst res = intersection_code A p0 p1 p2 pos (typed m (direction ray)) dir
                       (typed m i) (content m i)"
    if "direction ray \<noteq> position ray" "direction ray \<noteq> v0" "i \<noteq> v0"
  proof -
    have c0: "content m2 v0 = p0" using that co [of v0] by (simp add: p0_def)
    show ?thesis
      unfolding res_def unf c0 ci [OF that(1)] intersection_code_def param_s_def param_t_def
        Let_def pt_def [symmetric] r_def [symmetric] nz
      by (simp add: if_distrib [of fst])
  qed
  show "content (snd res) i =
             plane_point A pos (typed m (direction ray)) dir r (typed m i) (content m i) \<and>
           (i \<noteq> direction ray \<longrightarrow>
              content (snd res) (direction ray) =
                scaled_direction A (typed m (direction ray)) dir r) \<and>
           (\<forall>a. a \<noteq> i \<and> a \<noteq> direction ray \<longrightarrow> content (snd res) a = content m a) \<and>
           typed (snd res) = typed m \<and> unused (snd res) = unused m"
    if "direction ray \<noteq> position ray" "\<not> normal_is_zero A p0 p1 p2"
      "\<not> n_less A (n_abs A (plane_b A p0 p1 p2 dir)) (n_eps A)" "\<not> n_less A r (n_zero A)"
  proof -
    have "snd res = m2"
      using that(2-4) unfolding res_def unf nz by (auto simp add: if_distrib [of snd])
    then show ?thesis using ci [OF that(1)] cd co fr by (simp add: pt_def sd_def)
  qed
  show "snd res = m"
    if "normal_is_zero A p0 p1 p2 \<or>
           n_less A (n_abs A (plane_b A p0 p1 p2 dir)) (n_eps A) \<or> n_less A r (n_zero A)"
    using that unfolding res_def unf nz by (auto simp add: if_distrib [of snd])
qed

lemma intersection_code_degenerate:
  "intersection_code A p0 p1 p2 pos ty_dir dir ty_out out = - 1 \<longleftrightarrow> normal_is_zero A p0 p1 p2"
  by (simp add: intersection_code_def Let_def)

lemma intersection_code_inside:
  assumes "intersection_code A p0 p1 p2 pos ty_dir dir ty_out out = 1"
  shows "\<not> normal_is_zero A p0 p1 p2"
    and "\<not> n_less A (n_abs A (plane_b A p0 p1 p2 dir)) (n_eps A)"
    and "\<not> n_less A (plane_r A p0 p1 p2 pos dir) (n_zero A)"
  using assms by (simp_all add: intersection_code_def Let_def split: if_splits)

lemma real_arith_simps:
  "n_add real_arith = (+)" "n_sub real_arith = (-)" "n_mul real_arith = (*)"
  "n_div real_arith = (/)" "n_neg real_arith = uminus" "n_abs real_arith = abs"
  "n_less real_arith = (<)" "n_is_zero real_arith = (\<lambda>x. x = 0)"
  "n_fround real_arith = (\<lambda>x. x)" "n_nan real_arith = 0" "n_zero real_arith = 0"
  "n_one real_arith = 1" "n_eps real_arith = 1 / 10000"
  by (simp_all add: real_arith_def)

lemma sample_cells:
  "content (sample_memory pos) 0 = [0, 0, 0]" "content (sample_memory pos) (Suc 0) = [1, 0, 0]"
  "content (sample_memory pos) 2 = [0, 1, 0]" "content (sample_memory pos) 3 = pos"
  "content (sample_memory pos) 4 = [0, 0, - 1]" "content (sample_memory pos) 5 = [0, 0, 0]"
  "typed (sample_memory pos) a = False" "unused (sample_memory pos) = 6"
  "position sample_ray = 3" "direction sample_ray = 4"
  by (simp_all add: sample_memory_def sample_ray_def)

lemma shared_cells:
  "content (shared_memory p) 0 = [0, 0, 3]" "content (shared_memory p) (Suc 0) = [1, 0, 3]"
  "content (shared_memory p) 2 = [0, 1, 3]" "content (shared_memory p) 3 = p"
  "content (shared_memory p) 4 = [0, 0, 0]"
  "typed (shared_memory p) a = False" "unused (shared_memory p) = 5"
  "position shared_ray = 3" "direction shared_ray = 3"
  by (simp_all add: shared_memory_def shared_ray_def)

lemmas geometry_defs = triangle_normal_def normal_is_zero_def plane_a_def plane_b_def plane_r_def
  scaled_direction_def vec3_sum_def plane_point_def param_s_def param_t_def
  intersection_code_def vec3_subtract_to_def vec3_cross_to_def vec3_dot_def cell_def assign3_def
  assign_def Let_def

lemma slanted_cells:
  "content slanted_memory 0 = [0, 0, - 1]" "content slanted_memory (Suc 0) = [1, 0, - 1]"
  "content slanted_memory 2 = [0, 1, 0]" "content slanted_memory 3 = [1 / 4, 1 / 2, 3 / 2]"
  "content slanted_memory 4 = [0, 0, 0]"
  "typed slanted_memory a = False" "unused slanted_memory = 5"
  "position slanted_ray = 3" "direction slanted_ray = 0"
  by (simp_all add: slanted_memory_def slanted_ray_def)

text \<open>
  C4, as the code has it. Let the direction array of the ray be neither its position array
  nor the array of the first vertex, and let the destination, when one is supplied, not be
  the array of the first vertex (when none is supplied a new array is made, and the arrays
  passed are earlier ones). Then the result is the one described, every quantity computed
  with the arithmetic of the code and the temporaries rounded to single precision: -1
  exactly when the three components of the normal are zero; else 2 or 0 for \<open>\<bar>b\<bar> < 0.0001\<close>
  as \<open>a\<close> is zero or not; else 0 for \<open>r < 0\<close>; else 0 when \<open>s < 0 \<or> s > 1\<close> or
  \<open>t < 0 \<or> s + t > 1\<close>; and 1 otherwise, and then the destination (supplied or new) holds
  \<open>pos + r dir\<close> in its first three cells.
\<close>

theorem intersectRayTriangle_result:
  fixes A :: "'n arith" and m :: "'n memory" and v0 v1 v2 :: addr and ray :: ray
    and intersection :: "addr option"
  defines "p0 \<equiv> content m v0" and "p1 \<equiv> content m v1" and "p2 \<equiv> content m v2"
    and "pos \<equiv> content m (position ray)" and "dir \<equiv> content m (direction ray)"
    and "ty_dir \<equiv> typed m (direction ray)"
    and "ty_out \<equiv> out_typed m intersection" and "out \<equiv> out_content A m intersection"
  defines "res \<equiv> intersectRayTriangle A m v0 v1 v2 ray intersection"
  assumes apart: "direction ray \<noteq> position ray" "direction ray \<noteq> v0"
    and dest: "case intersection of
                 Some i \<Rightarrow> i \<noteq> v0
               | None \<Rightarrow> v0 < unused m \<and> v1 < unused m \<and> v2 < unused m \<and>
                         position ray < unused m \<and> direction ray < unused m"
  shows "fst res = intersection_code A p0 p1 p2 pos ty_dir dir ty_out out \<and>
         (fst res = - 1 \<longleftrightarrow> normal_is_zero A p0 p1 p2) \<and>
         (fst res = 1 \<longrightarrow>
            content (snd res) (out_array m intersection) =
              plane_point A pos ty_dir dir (plane_r A p0 p1 p2 pos dir) ty_out out)"
proof -
  have main: "fst res' = intersection_code A p0 p1 p2 pos ty_dir dir ty_out out \<and>
         (fst res' = 1 \<longrightarrow>
            content (snd res') i =
              plane_point A pos ty_dir dir (plane_r A p0 p1 p2 pos dir) ty_out out)"
    if "res' = intersectRayTriangle A m' v0 v1 v2 ray (Some i)" "i \<noteq> v0"
      "content m' v0 = p0" "content m' v1 = p1" "content m' v2 = p2"
      "content m' (position ray) = pos" "content m' (direction ray) = dir"
      "typed m' (direction ray) = ty_dir" "typed m' i = ty_out" "content m' i = out"
    for res' m' i
  proof -
    have c: "fst res' = intersection_code A p0 p1 p2 pos ty_dir dir ty_out out"
      using intersect_supplied(1) [OF apart(1) apart(2) that(2), of A m' v1 v2] that
      by simp
    have "content (snd res') i =
              plane_point A pos ty_dir dir (plane_r A p0 p1 p2 pos dir) ty_out out"
      if one: "fst res' = 1"
      using intersect_supplied(2) [OF apart(1), of A m' v0 v1 v2 i]
        intersection_code_inside [of A p0 p1 p2 pos ty_dir dir ty_out out] one c
        \<open>res' = _\<close> \<open>content m' v0 = p0\<close> \<open>content m' v1 = p1\<close> \<open>content m' v2 = p2\<close>
        \<open>content m' (position ray) = pos\<close> \<open>content m' (direction ray) = dir\<close>
        \<open>typed m' (direction ray) = ty_dir\<close> \<open>typed m' i = ty_out\<close> \<open>content m' i = out\<close>
      by simp
    then show ?thesis using c by simp
  qed
  show ?thesis
  proof (cases intersection)
    case (Some i)
    then have i: "i \<noteq> v0" using dest by simp
    show ?thesis
      using main [of res m i] i Some
      by (simp add: res_def p0_def p1_def p2_def pos_def dir_def ty_dir_def ty_out_def out_def
          out_typed_def out_content_def out_array_def intersection_code_degenerate)
  next
    case None
    define m0 where "m0 = snd (vec3_create A m)"
    have fr: "v0 \<noteq> unused m" "v1 \<noteq> unused m" "v2 \<noteq> unused m" "position ray \<noteq> unused m"
      "direction ray \<noteq> unused m"
      using dest None by simp_all
    have r: "res = intersectRayTriangle A m0 v0 v1 v2 ray (Some (unused m))"
      using None by (simp add: res_def intersect_None m0_def)
    show ?thesis
      using main [of res m0 "unused m"] r fr None
      by (simp add: m0_def vec3_create_frame p0_def p1_def p2_def pos_def dir_def ty_dir_def
          ty_out_def out_def out_typed_def out_content_def out_array_def
          intersection_code_degenerate)
  qed
qed

theorem intersectRayTriangle_result_witness:
  "fst (intersectRayTriangle real_arith (sample_memory [1 / 4, 1 / 4, 1]) 0 1 2 sample_ray
     (Some 5)) = 1 \<and>
   content (snd (intersectRayTriangle real_arith (sample_memory [1 / 4, 1 / 4, 1]) 0 1 2
     sample_ray (Some 5))) 5 = [1 / 4, 1 / 4, 0] \<and>
   fst (intersectRayTriangle real_arith (sample_memory [1 / 4, 1 / 4, 1]) 0 1 2 sample_ray
     None) = 1"
  using intersectRayTriangle_result [where A = real_arith and m = "sample_memory [1 / 4, 1 / 4, 1]"
      and ?v0.0 = 0 and ?v1.0 = 1 and ?v2.0 = 2 and ray = sample_ray and intersection = "Some 5"]
    intersectRayTriangle_result [where A = real_arith and m = "sample_memory [1 / 4, 1 / 4, 1]"
      and ?v0.0 = 0 and ?v1.0 = 1 and ?v2.0 = 2 and ray = sample_ray and intersection = None]
  by (simp add: sample_cells real_arith_simps out_array_def out_typed_def out_content_def
      geometry_defs)

text \<open>
  Without the conditions on the arrays the result is another one. A ray whose position
  and direction are one array \<open>(3/16, 1/8, 1)\<close>, under the triangle
  \<open>(0,0,3), (1,0,3), (0,1,3)\<close>: \<open>r = 2\<close>, and \<open>pos + r dir = (9/16, 3/8, 3)\<close> has \<open>s = 9/16\<close>,
  \<open>t = 3/8\<close>, inside the triangle, so the description gives 1. The code scales the shared
  array to \<open>(3/8, 1/4, 2)\<close> and adds it to itself: \<open>(3/4, 1/2, 4)\<close>, \<open>s + t = 5/4\<close>, and
  it returns 0.
\<close>

theorem intersectRayTriangle_shared_array_counterexample:
  "fst (intersectRayTriangle real_arith (shared_memory [3 / 16, 1 / 8, 1]) 0 1 2 shared_ray
     (Some 4)) = 0 \<and>
   intersection_code real_arith [0, 0, 3] [1, 0, 3] [0, 1, 3] [3 / 16, 1 / 8, 1]
     False [3 / 16, 1 / 8, 1] False [0, 0, 0] = 1"
  by (simp add: intersect_unfold scale_in_place_content add_to_content shared_cells
      real_arith_simps geometry_defs)

text \<open>
  The other two conditions are needed as well. With the array of the first vertex as the
  destination, \<open>w\<close> is the zero vector and the code returns 1 for a point outside the
  triangle; with it as the direction of the ray, \<open>w\<close> is taken from the scaled vertex.
\<close>

lemma intersect_destination_is_vertex:
  "fst (intersectRayTriangle real_arith (sample_memory [2, 2, 1]) 0 1 2 sample_ray (Some 0)) = 1 \<and>
   intersection_code real_arith [0, 0, 0] [1, 0, 0] [0, 1, 0] [2, 2, 1] False [0, 0, - 1]
     False [0, 0, 0] = 0"
  by (simp add: intersect_unfold scale_in_place_content add_to_content sample_cells
      real_arith_simps geometry_defs)

lemma intersect_direction_is_vertex:
  "fst (intersectRayTriangle real_arith slanted_memory 0 1 2 slanted_ray (Some 4)) = 0 \<and>
   intersection_code real_arith [0, 0, - 1] [1, 0, - 1] [0, 1, 0] [1 / 4, 1 / 2, 3 / 2]
     False [0, 0, - 1] False [0, 0, 0] = 1"
  by (simp add: intersect_unfold scale_in_place_content add_to_content slanted_cells
      real_arith_simps geometry_defs)

text \<open>
  C10, as the code has it. Past the degenerate, parallel and \<open>r < 0\<close> tests (the normal not
  zero, not \<open>\<bar>b\<bar> < 0.0001\<close>, not \<open>r < 0\<close>), and with the direction array of the ray neither
  its position array nor the destination supplied, the destination holds \<open>pos + r dir\<close> in
  its first three cells and the direction array of the ray has been scaled by \<open>r\<close> where it
  is, whatever the result. When one of those three tests returns, the memory is as it was,
  whichever arrays are one and the same.
\<close>

theorem intersectRayTriangle_writes:
  fixes A :: "'n arith" and m :: "'n memory" and v0 v1 v2 i :: addr and ray :: ray
  defines "p0 \<equiv> content m v0" and "p1 \<equiv> content m v1" and "p2 \<equiv> content m v2"
    and "pos \<equiv> content m (position ray)" and "dir \<equiv> content m (direction ray)"
    and "ty_dir \<equiv> typed m (direction ray)"
  defines "r \<equiv> plane_r A p0 p1 p2 pos dir"
  defines "m' \<equiv> snd (intersectRayTriangle A m v0 v1 v2 ray (Some i))"
  shows "(direction ray \<noteq> position ray \<and> i \<noteq> direction ray \<and>
          \<not> normal_is_zero A p0 p1 p2 \<and>
          \<not> n_less A (n_abs A (plane_b A p0 p1 p2 dir)) (n_eps A) \<and> \<not> n_less A r (n_zero A) \<longrightarrow>
            content m' i = plane_point A pos ty_dir dir r (typed m i) (content m i) \<and>
            content m' (direction ray) = scaled_direction A ty_dir dir r) \<and>
         (normal_is_zero A p0 p1 p2 \<or>
          n_less A (n_abs A (plane_b A p0 p1 p2 dir)) (n_eps A) \<or> n_less A r (n_zero A) \<longrightarrow>
            m' = m)"
  using intersect_supplied(2) [where A = A and m = m and ?v0.0 = v0 and ?v1.0 = v1 and ?v2.0 = v2
      and ray = ray and i = i]
    intersect_supplied(3) [where A = A and m = m and ?v0.0 = v0 and ?v1.0 = v1 and ?v2.0 = v2
      and ray = ray and i = i]
  unfolding p0_def p1_def p2_def pos_def dir_def ty_dir_def r_def m'_def
  by blast

theorem intersectRayTriangle_writes_witness:
  "fst (intersectRayTriangle real_arith (sample_memory [2, 2, 2]) 0 1 2 sample_ray (Some 5)) = 0 \<and>
   content (snd (intersectRayTriangle real_arith (sample_memory [2, 2, 2]) 0 1 2 sample_ray
     (Some 5))) 5 = [2, 2, 0] \<and>
   content (snd (intersectRayTriangle real_arith (sample_memory [2, 2, 2]) 0 1 2 sample_ray
     (Some 5))) 4 = [0, 0, - 2] \<and>
   snd (intersectRayTriangle real_arith (sample_memory [0, 0, - 1]) 0 1 2 sample_ray (Some 5)) =
     sample_memory [0, 0, - 1]"
proof -
  have c: "fst (intersectRayTriangle real_arith (sample_memory [2, 2, 2]) 0 1 2 sample_ray
      (Some 5)) = 0"
    using intersect_supplied(1) [of sample_ray 0 5 real_arith "sample_memory [2, 2, 2]" 1 2]
    by (simp add: sample_cells real_arith_simps geometry_defs)
  show ?thesis
    using intersectRayTriangle_writes [where A = real_arith and m = "sample_memory [2, 2, 2]"
        and ?v0.0 = 0 and ?v1.0 = 1 and ?v2.0 = 2 and ray = sample_ray and i = 5]
      intersectRayTriangle_writes [where A = real_arith and m = "sample_memory [0, 0, - 1]"
        and ?v0.0 = 0 and ?v1.0 = 1 and ?v2.0 = 2 and ray = sample_ray and i = 5] c
    by (simp add: sample_cells real_arith_simps geometry_defs)
qed

text \<open>
  A ray whose position and direction are one array \<open>(1/4, 1/4, 1)\<close>, under the triangle
  \<open>(0,0,3), (1,0,3), (0,1,3)\<close>: the normal is \<open>(0, 0, 1)\<close>, \<open>b = 1\<close>, \<open>r = 2\<close> and
  \<open>pos + r dir = (3/4, 3/4, 3)\<close>, but the destination receives \<open>(1, 1, 4)\<close>, the scaled
  array added to itself.
\<close>

theorem intersectRayTriangle_point_counterexample:
  "triangle_normal real_arith [0, 0, 3] [1, 0, 3] [0, 1, 3] = [0, 0, 1] \<and>
   plane_b real_arith [0, 0, 3] [1, 0, 3] [0, 1, 3] [1 / 4, 1 / 4, 1] = 1 \<and>
   plane_r real_arith [0, 0, 3] [1, 0, 3] [0, 1, 3] [1 / 4, 1 / 4, 1] [1 / 4, 1 / 4, 1] = 2 \<and>
   plane_point real_arith [1 / 4, 1 / 4, 1] False [1 / 4, 1 / 4, 1] 2 False [0, 0, 0] =
     [3 / 4, 3 / 4, 3] \<and>
   content (snd (intersectRayTriangle real_arith (shared_memory [1 / 4, 1 / 4, 1]) 0 1 2
     shared_ray (Some 4))) 4 = [1, 1, 4]"
  by (simp add: intersect_unfold scale_in_place_content add_to_content shared_cells
      real_arith_simps geometry_defs)

text \<open>
  With the direction array as the destination, it ends up holding the point and not the
  scaled direction.
\<close>

lemma intersect_destination_is_direction:
  "plane_r real_arith [0, 0, 0] [1, 0, 0] [0, 1, 0] [1 / 4, 1 / 4, 2] [0, 0, - 1] = 2 \<and>
   scaled_direction real_arith False [0, 0, - 1] 2 = [0, 0, - 2] \<and>
   content (snd (intersectRayTriangle real_arith (sample_memory [1 / 4, 1 / 4, 2]) 0 1 2
     sample_ray (Some 4))) 4 = [1 / 4, 1 / 4, 0]"
  by (simp add: intersect_unfold scale_in_place_content add_to_content sample_cells
      real_arith_simps geometry_defs)

subsection \<open>unproject and createRay\<close>









lemma put_four: "put (put (put (put xs 0 a) 1 b) 2 c) 3 d = [a, b, c, d] @ drop 4 xs"
proof (cases xs)
  case Nil
  then show ?thesis by (simp add: put_def)
next
  case (Cons x1 xs1)
  show ?thesis
  proof (cases xs1)
    case Nil
    then show ?thesis using Cons by (simp add: put_def)
  next
    case c2: (Cons x2 xs2)
    show ?thesis
    proof (cases xs2)
      case Nil
      then show ?thesis using Cons c2 by (simp add: put_def)
    next
      case c3: (Cons x3 xs3)
      show ?thesis
      proof (cases xs3)
        case Nil
        then show ?thesis using Cons c2 c3 by (simp add: put_def)
      next
        case c4: (Cons x4 xs4)
        then show ?thesis using Cons c2 c3 by (simp add: put_def)
      qed
    qed
  qed
qed

lemma put4_append: "put4 xs [a, b, c, d] = [a, b, c, d] @ drop 4 xs"
  using put_four [of xs a b c d] by (simp add: put4_def)

lemma put_nth_other: "i < length xs \<Longrightarrow> j \<noteq> i \<Longrightarrow> put xs i v ! j = xs ! j"
  by (simp add: put_def)

lemma length_put: "i < length xs \<Longrightarrow> length (put xs i v) = length xs"
  by (simp add: put_def)

lemma write_cells_twice [simp]:
  "write_cells (write_cells st a xs) a ys = write_cells st a ys"
  by (simp add: write_cells_def)

lemma cells_write_same [simp]: "cells (write_cells st a xs) a = xs"
  by (simp add: write_cells_def)

lemma cells_write_other [simp]: "b \<noteq> a \<Longrightarrow> cells (write_cells st a xs) b = cells st b"
  by (simp add: write_cells_def)

lemma fresh_write_cells [simp]: "fresh (write_cells st a xs) = fresh st"
  by (simp add: write_cells_def)

lemma normalized_coordinates_eq:
  assumes "3 \<le> length (cells st p)"
  shows "normalized_coordinates st p viewport c =
           write_cells st c (window_to_ndc (cells st p) viewport @ drop 4 (cells st c))"
proof (cases "c = p")
  case True
  have l: "0 < length (cells st p)" "1 < length (cells st p)" using assms by linarith+
  have r1: "put (cells st p) 0 a ! 1 = cells st p ! 1" for a
    using l by (simp add: put_nth_other)
  have r2: "put (put (cells st p) 0 a) 1 b ! 2 = cells st p ! 2" for a b
    using l by (simp add: put_nth_other length_put)
  show ?thesis
    unfolding normalized_coordinates_def Let_def True window_to_ndc_def
    by (simp only: cells_write_same write_cells_twice r1 r2 put_four)
next
  case False
  then have pc: "p \<noteq> c" by simp
  show ?thesis
    unfolding normalized_coordinates_def Let_def window_to_ndc_def
    by (simp only: cells_write_same write_cells_twice cells_write_other [OF pc] put_four)
qed

lemma perspective_divide_eq:
  assumes "cells st c = [x, y, z, w] @ rest"
  shows "perspective_divide st c =
           write_cells st c ([x * (1 / w), y * (1 / w), z * (1 / w), 1 / w] @ rest)"
  unfolding perspective_divide_def Let_def
  by (simp add: assms put_def)

lemma multiplyVec4_prefix:
  "mat4_multiplyVec4 m ([a, b, c, d] @ rest) = mat4_multiplyVec4 m [a, b, c, d]"
  by (simp add: mat4_multiplyVec4_def)

lemma multiplyVec4_list:
  "\<exists>x y z w. mat4_multiplyVec4 m v = [x, y, z, w]"
  by (simp add: mat4_multiplyVec4_def)

lemma unproject_supplied:
  assumes "3 \<le> length (cells st p)"
  shows "unproject st p viewport mvMat projMat (Some c) =
           map_option (\<lambda>q. (c, write_cells st c (q @ drop 4 (cells st c))))
             (unprojected (cells st p) viewport mvMat projMat)"
proof (cases "mat4_inverse (mat4_multiply projMat mvMat)")
  case None
  then show ?thesis by (simp add: unproject_def unprojected_def)
next
  case (Some mvp)
  show ?thesis
  proof (cases "viewport ! 2 = 0 \<or> viewport ! 3 = 0")
    case True
    then show ?thesis using Some by (simp add: unproject_def unprojected_def)
  next
    case False
    define rest where "rest = drop 4 (cells st c)"
    obtain a b c' d where ndc: "window_to_ndc (cells st p) viewport = [a, b, c', d]"
      by (simp add: window_to_ndc_def)
    obtain x y z w where v: "mat4_multiplyVec4 mvp [a, b, c', d] = [x, y, z, w]"
      using multiplyVec4_list by blast
    define st4 where "st4 = normalized_coordinates st p viewport c"
    define st5 where "st5 = write_cells st4 c (put4 (cells st4 c) (mat4_multiplyVec4 mvp (cells st4 c)))"
    have s4: "st4 = write_cells st c ([a, b, c', d] @ rest)"
      unfolding st4_def rest_def using normalized_coordinates_eq [OF assms] ndc by simp
    have s5: "st5 = write_cells st c ([x, y, z, w] @ rest)"
      unfolding st5_def s4 by (simp only: cells_write_same multiplyVec4_prefix v put4_append
          write_cells_twice) simp
    have u: "unproject st p viewport mvMat projMat (Some c) =
               (if cells st5 c ! 3 = 0 then None else Some (c, perspective_divide st5 c))"
      using Some False unfolding st5_def st4_def by (simp add: unproject_def Let_def)
    have pd: "perspective_divide st5 c =
                write_cells st c ([x * (1 / w), y * (1 / w), z * (1 / w), 1 / w] @ rest)"
      using perspective_divide_eq [of st5 c x y z w rest] by (simp add: s5)
    have un: "unprojected (cells st p) viewport mvMat projMat =
                (if w = 0 then None
                 else Some [x * (1 / w), y * (1 / w), z * (1 / w), 1 / w])"
      using Some False by (simp add: unprojected_def ndc v)
    show ?thesis
      unfolding u pd un by (simp add: s5 rest_def)
  qed
qed








lemma picking_cells:
  "cells picking_store 0 = [1, 1, 1 / 2]" "cells picking_store (Suc 0) = [3, 1, 1 / 2]"
  "fresh picking_store = 2"
  by (simp_all add: picking_store_def)

lemma inverse_identity: "mat4_inverse (mat4_multiply mat4_identity mat4_identity) = Some mat4_identity"
  by (simp add: mat4_inverse_def mat4_multiply_def mat4_identity_def Let_def)




lemma unprojected_four:
  assumes "unprojected p viewport mvMat projMat = Some q"
  shows "\<exists>x y z w. q = [x, y, z, w]"
  using assms
  by (auto simp add: unprojected_def Let_def split: option.splits if_splits)

lemma vec3_subtract_prefix:
  "vec3_subtract ([a, b, c, d] @ r) ([a', b', c', d'] @ r') = vec3_subtract [a, b, c, d] [a', b', c', d']"
  by (simp add: vec3_subtract_def)

text \<open>
  C5 fails on the \<open>lookAt\<close> field. For two different arrays that \<open>unproject\<close> takes to \<open>q0\<close>
  and \<open>q1\<close>, \<open>createRay\<close> returns a ray whose \<open>position\<close> is the array of the first point,
  holding \<open>q0\<close>, and whose \<open>direction\<close> holds the normalized \<open>q1 - q0\<close>, as claimed. But
  \<open>vec3.subtract\<close> and \<open>vec3.normalize\<close> wrote that direction into the array of the second
  point, and \<open>lookAt\<close> is that same array: it holds the direction, not \<open>q1\<close>.
\<close>

theorem createRay_lookAt_is_direction:
  assumes "3 \<le> length (cells st p0)" and "3 \<le> length (cells st p1)" and "p0 \<noteq> p1"
    and "unprojected (cells st p0) viewport mvMat projMat = Some q0"
    and "unprojected (cells st p1) viewport mvMat projMat = Some q1"
  shows "\<exists>ray st'. createRay st p0 p1 viewport mvMat projMat = Some (ray, st') \<and>
           position ray = p0 \<and> lookAt ray = p1 \<and> direction ray = p1 \<and>
           take 4 (cells st' (position ray)) = q0 \<and>
           take 3 (cells st' (direction ray)) = vec3_normalize (vec3_subtract q1 q0) \<and>
           take 3 (cells st' (lookAt ray)) = vec3_normalize (vec3_subtract q1 q0)"
proof -
  obtain x0 y0 z0 w0 where q0: "q0 = [x0, y0, z0, w0]"
    using unprojected_four [OF assms(4)] by blast
  obtain x1 y1 z1 w1 where q1: "q1 = [x1, y1, z1, w1]"
    using unprojected_four [OF assms(5)] by blast
  define r0 where "r0 = drop 4 (cells st p0)"
  define r1 where "r1 = drop 4 (cells st p1)"
  define st1 where "st1 = write_cells st p0 (q0 @ r0)"
  define st2 where "st2 = write_cells st1 p1 (q1 @ r1)"
  have u0: "unproject st p0 viewport mvMat projMat (Some p0) = Some (p0, st1)"
    using unproject_supplied [OF assms(1), of viewport mvMat projMat p0] assms(4)
    by (simp add: st1_def r0_def)
  have c1: "cells st1 p1 = cells st p1"
    using assms(3) by (simp add: st1_def)
  have l1: "3 \<le> length (cells st1 p1)" using assms(2) c1 by simp
  have u1: "unproject st1 p1 viewport mvMat projMat (Some p1) = Some (p1, st2)"
    using unproject_supplied [OF l1, of viewport mvMat projMat p1] assms(5)
    by (simp add: st2_def r1_def c1)
  have c20: "cells st2 p0 = q0 @ r0" using assms(3) by (simp add: st2_def st1_def)
  have c21: "cells st2 p1 = q1 @ r1" by (simp add: st2_def)
  define d where "d = vec3_subtract q1 q0"
  have sub: "vec3_subtract (cells st2 p1) (cells st2 p0) = d"
    unfolding c20 c21 q0 q1 d_def by (rule vec3_subtract_prefix)
  define st3 where "st3 = write_cells st2 p1 (put3 (cells st2 p1) d)"
  define st4 where "st4 = write_cells st3 p1 (put3 (cells st3 p1) (vec3_normalize (cells st3 p1)))"
  have ld: "length d = 3" by (simp add: d_def)
  have n3: "vec3_normalize (cells st3 p1) = vec3_normalize d"
    by (simp add: st3_def ld)
  have c41: "take 3 (cells st4 p1) = vec3_normalize d"
    by (simp add: st4_def n3 take3_put3_gen)
  have c40: "take 4 (cells st4 p0) = q0"
    using assms(3) by (simp add: st4_def st3_def c20 q0)
  have cr: "createRay st p0 p1 viewport mvMat projMat =
              Some (\<lparr>position = p0, lookAt = p1, direction = p1\<rparr>, st4)"
    by (simp add: createRay_def u0 u1 Let_def st4_def st3_def sub ld)
  show ?thesis
    using cr c40 c41 by (simp add: d_def)
qed

theorem createRay_lookAt_is_direction_witness:
  "unprojected (cells picking_store 1) [0, 0, 2, 2] mat4_identity mat4_identity =
     Some [2, 0, 0, 1] \<and>
   (\<exists>ray st'. createRay picking_store 0 1 [0, 0, 2, 2] mat4_identity mat4_identity =
                 Some (ray, st') \<and>
      lookAt ray = direction ray \<and>
      take 3 (cells st' (direction ray)) = [1, 0, 0] \<and>
      take 3 (cells st' (lookAt ray)) = [1, 0, 0])"
proof -
  have q0: "unprojected (cells picking_store 0) [0, 0, 2, 2] mat4_identity mat4_identity =
              Some [0, 0, 0, 1]"
    unfolding unprojected_def inverse_identity
    by (simp add: window_to_ndc_def mat4_multiplyVec4_def mat4_identity_def picking_cells Let_def)
  have q1: "unprojected (cells picking_store 1) [0, 0, 2, 2] mat4_identity mat4_identity =
              Some [2, 0, 0, 1]"
    unfolding unprojected_def inverse_identity
    by (simp add: window_to_ndc_def mat4_multiplyVec4_def mat4_identity_def picking_cells Let_def)
  have n: "vec3_normalize (vec3_subtract [2, 0, 0, 1] [0, 0, 0, 1]) = [1, 0, 0]"
    by (simp add: vec3_normalize_def vec3_subtract_def Let_def)
  have l: "3 \<le> length (cells picking_store 0)" "3 \<le> length (cells picking_store 1)"
    by (simp_all add: picking_cells)
  have ne: "(0::nat) \<noteq> 1" by simp
  obtain ray st' where
    r: "createRay picking_store 0 1 [0, 0, 2, 2] mat4_identity mat4_identity = Some (ray, st')"
      "lookAt ray = 1" "direction ray = 1"
      "take 3 (cells st' (direction ray)) = vec3_normalize (vec3_subtract [2, 0, 0, 1] [0, 0, 0, 1])"
      "take 3 (cells st' (lookAt ray)) = vec3_normalize (vec3_subtract [2, 0, 0, 1] [0, 0, 0, 1])"
    using createRay_lookAt_is_direction [OF l ne q0 q1] by blast
  show ?thesis
    using q1 r unfolding n by auto
qed

end
